theory Spec2Isabelle
  imports Main "HOL-Library.Word" "HOL-Library.Monad_Syntax"
begin

section \<open>Data model\<close>

text \<open>
  The renderer's \<^verbatim>\<open>RenderView\<close> (chrome/renderer/render_view.cc), the test shell's
  drag delegate (webkit/tools/test_shell/drag_delegate.cc) and the cache-mode selection
  of the test shell's \<^verbatim>\<open>main\<close> (webkit/tools/test_shell/test_shell_main.cc).

  C++ members carry a trailing underscore (\<^verbatim>\<open>page_id_\<close>); Isabelle rejects such
  names, so the underscore is dropped (\<open>page_id\<close>). \<^verbatim>\<open>int\<close> and \<^verbatim>\<open>int32\<close> are
  32-bit two's complement words: \<open>+\<close> and \<open>-\<close> wrap, comparisons read the word
  through \<open>sint\<close>.
\<close>

type_synonym int32 = "32 word"

text \<open>
  Modelled from the spec: \<^verbatim>\<open>GURL\<close> (googleurl) is not among the sources. A URL is its
  text, its validity flag and its scheme; the default-constructed \<^verbatim>\<open>GURL()\<close> is empty
  and invalid, and a secure scheme is the https scheme.
\<close>

record GURL =
  url_spec :: string
  url_is_valid :: bool
  url_scheme :: string

definition GURL_empty :: GURL where
  "GURL_empty = \<lparr>url_spec = [], url_is_valid = False, url_scheme = []\<rparr>"

definition is_empty :: "GURL \<Rightarrow> bool" where
  "is_empty u = (url_spec u = [])"

definition SchemeIsSecure :: "GURL \<Rightarrow> bool" where
  "SchemeIsSecure u = (url_scheme u = ''https'')"

text \<open>
  Modelled from the spec: \<^verbatim>\<open>PageTransition\<close> (page_transition_types.h) is not among
  the sources. A transition is a core type together with qualifier bits; the core types
  named in render_view.cc are constructors of their own, \<^verbatim>\<open>IsMainFrame\<close> strips the
  qualifiers and excludes the two subframe types, and OR-ing \<^verbatim>\<open>CLIENT_REDIRECT\<close> sets
  that qualifier.
\<close>

datatype PageTransition_core =
  LINK | AUTO_SUBFRAME | MANUAL_SUBFRAME | START_PAGE | FORM_SUBMIT | OTHER_CORE nat

record PageTransition =
  core :: PageTransition_core
  client_redirect :: bool
  other_qualifiers :: nat

definition plain :: "PageTransition_core \<Rightarrow> PageTransition" where
  "plain c = \<lparr>core = c, client_redirect = False, other_qualifiers = 0\<rparr>"

definition IsMainFrame :: "PageTransition \<Rightarrow> bool" where
  "IsMainFrame t = (core t \<noteq> AUTO_SUBFRAME \<and> core t \<noteq> MANUAL_SUBFRAME)"

definition or_CLIENT_REDIRECT :: "PageTransition \<Rightarrow> PageTransition" where
  "or_CLIENT_REDIRECT t = t\<lparr>client_redirect := True\<rparr>"

datatype NavigationGesture =
  NavigationGestureUser | NavigationGestureAuto | NavigationGestureUnknown

datatype TargetURLStatus = TARGET_NONE | TARGET_INFLIGHT | TARGET_PENDING

subsection \<open>What the rendering engine shows to the view\<close>

text \<open>
  \<^verbatim>\<open>RenderViewExtraRequestData\<close>, lines 146-176 of render_view.cc; the private
  \<^verbatim>\<open>pending_page_id_\<close> is \<open>pending_page_id\<close>.
\<close>

record RenderViewExtraRequestData =
  transition_type :: PageTransition
  request_time :: nat
  request_committed :: bool
  pending_page_id :: int32

definition is_new_navigation :: "RenderViewExtraRequestData \<Rightarrow> bool" where
  "is_new_navigation e = (pending_page_id e = - 1)"

record WebRequest =
  request_url :: GURL
  http_method :: string
  http_referrer :: GURL
  request_security_info :: string
  extra_data :: "RenderViewExtraRequestData option"

record WebResponse =
  http_status_code :: int
  is_content_filtered :: bool
  response_security_info :: string
  mime_type :: string

record SearchableFormData =
  form_url :: GURL
  form_element_name :: string
  form_encoding :: string

record WebDataSource =
  request :: WebRequest
  initial_request :: WebRequest
  response :: WebResponse
  has_unreachable_url :: bool
  unreachable_url :: GURL
  redirect_chain :: "GURL list"
  searchable_form_data :: "SearchableFormData option"
  password_form_data :: "string option"
  is_form_submit :: bool

record WebFrame =
  frame_url :: GURL
  data_source :: "WebDataSource option"
  in_view_source_mode :: bool
  frame_text :: string
  fav_icon_url :: GURL
  osdd_url :: GURL
  previous_history_state :: "string option"
  thumbnail_capture :: "string option"

text \<open>
  A \<^verbatim>\<open>WebFrame*\<close> is the main frame of the view's \<^verbatim>\<open>WebView\<close> or one of its
  subframes, so that \<^verbatim>\<open>webview()->GetMainFrame() == frame\<close> is a comparison of
  references and the main frame's request is one object however it is reached.
\<close>

datatype frame_ref = MainFrame | SubFrame nat

record WebView =
  main_frame :: "WebFrame option"
  sub_frames :: "WebFrame list"
  main_frame_encoding_name :: string
  fill_form_to_upload_file :: bool

fun get_frame :: "WebView \<Rightarrow> frame_ref \<Rightarrow> WebFrame option" where
  "get_frame w MainFrame = main_frame w"
| "get_frame w (SubFrame i) = (if i < length (sub_frames w) then Some (sub_frames w ! i) else None)"

fun put_frame :: "WebView \<Rightarrow> frame_ref \<Rightarrow> WebFrame \<Rightarrow> WebView" where
  "put_frame w MainFrame f = w\<lparr>main_frame := Some f\<rparr>"
| "put_frame w (SubFrame i) f = w\<lparr>sub_frames := (sub_frames w)[i := f]\<rparr>"

subsection \<open>Outbound messages and posted tasks\<close>

record FrameNavigate_Params =
  p_page_id :: int32
  p_url :: GURL
  p_referrer :: GURL
  p_transition :: PageTransition
  p_redirects :: "GURL list"
  p_should_update_history :: bool
  p_searchable_form :: "SearchableFormData option"
  p_password_form :: "string option"
  p_security_info :: string
  p_gesture :: NavigationGesture
  p_contents_mime_type :: string
  p_is_post :: bool
  p_is_content_filtered :: bool
  p_http_status_code :: int

datatype ViewHostMsg =
  ViewHostMsg_PageContents GURL int32 string
| ViewHostMsg_Thumbnail int32 GURL string
| ViewHostMsg_UpdateTargetURL int32 int32 GURL
| ViewHostMsg_FrameNavigate int32 FrameNavigate_Params
| ViewHostMsg_UpdateEncoding int32 string
| ViewHostMsg_UpdateState int32 int32 string
| ViewHostMsg_DidStartLoading int32 int32
| ViewHostMsg_DidStopLoading int32 int32
| ViewHostMsg_UpdateFavIconURL int32 int32 GURL
| ViewHostMsg_PageHasOSDD int32 int32 GURL bool
| ViewHostMsg_GoToEntryAtOffset int32 int32
| ViewHostMsg_CreateWindow int32 bool

text \<open>\<^verbatim>\<open>PostDelayedTask\<close> of \<^verbatim>\<open>CapturePageInfo(load_id, preliminary_capture)\<close> after a delay in ms.\<close>

datatype DelayedTask = Task_CapturePageInfo int32 bool nat

definition kMaxIndexChars :: nat where "kMaxIndexChars = 65535"
definition kDelayForCaptureMs :: nat where "kDelayForCaptureMs = 500"
definition kDelayForForcedCaptureMs :: nat where "kDelayForForcedCaptureMs = 6000"
definition kMaximumNumberOfUnacknowledgedPopups :: int32 where
  "kMaximumNumberOfUnacknowledgedPopups = 25"

text \<open>Modelled from the spec: \<^verbatim>\<open>MSG_ROUTING_NONE\<close> (ipc_message.h) is not among the sources.\<close>

definition MSG_ROUTING_NONE :: int32 where "MSG_ROUTING_NONE = - 2"

subsection \<open>The view and the renderer process\<close>

record RenderView =
  routing_id :: int32
  opener_id :: int32
  webview :: "WebView option"
  view_size_is_empty :: bool
  target_url :: GURL
  pending_target_url :: GURL
  target_url_status :: TargetURLStatus
  is_loading :: bool
  navigation_gesture :: NavigationGesture
  page_id :: int32
  last_page_id_sent_to_browser :: int32
  last_indexed_page_id :: int32
  opened_by_user_gesture :: bool
  first_default_plugin :: "nat option"
  history_back_list_count :: int32
  history_forward_list_count :: int32
  popup_notification_visible :: bool
  completed_client_redirect_src :: GURL
  last_encoding_name :: string
  alternate_error_page_url :: GURL
  pending_upload_data :: "string option"
  shared_popup_counter :: nat
  decrement_shared_popup_at_destruction :: bool
  sent :: "ViewHostMsg list"
  posted :: "DelayedTask list"
  dlog :: "string list"

text \<open>
  The state shared by every view of the process: the static \<^verbatim>\<open>next_page_id_\<close>, the
  \<^verbatim>\<open>SharedRenderViewCounter\<close> objects by address, the next free address, and what went
  out through \<^verbatim>\<open>render_thread_->Send\<close> directly.
\<close>

record Renderer =
  next_page_id :: int32
  counters :: "nat \<Rightarrow> int32"
  next_counter :: nat
  thread_sent :: "ViewHostMsg list"

definition Send :: "ViewHostMsg \<Rightarrow> RenderView \<Rightarrow> RenderView" where
  "Send m v = v\<lparr>sent := sent v @ [m]\<rparr>"

definition DLOG_WARNING :: "string \<Rightarrow> RenderView \<Rightarrow> RenderView" where
  "DLOG_WARNING s v = v\<lparr>dlog := dlog v @ [s]\<rparr>"

text \<open>
  The constructor \<^verbatim>\<open>RenderView::RenderView\<close>, lines 183-202: a view that has no web
  view yet. Members the initialiser list does not name are default-constructed; the
  routing ids start as \<^verbatim>\<open>MSG_ROUTING_NONE\<close>.
\<close>

definition RenderView_ctor :: RenderView where
  "RenderView_ctor =
     \<lparr>routing_id = MSG_ROUTING_NONE, opener_id = MSG_ROUTING_NONE, webview = None,
      view_size_is_empty = True,
      target_url = GURL_empty, pending_target_url = GURL_empty,
      target_url_status = TARGET_NONE, is_loading = False,
      navigation_gesture = NavigationGestureUnknown,
      page_id = - 1, last_page_id_sent_to_browser = - 1, last_indexed_page_id = - 1,
      opened_by_user_gesture = True, first_default_plugin = None,
      history_back_list_count = 0, history_forward_list_count = 0,
      popup_notification_visible = False,
      completed_client_redirect_src = GURL_empty, last_encoding_name = [],
      alternate_error_page_url = GURL_empty, pending_upload_data = None,
      shared_popup_counter = 0, decrement_shared_popup_at_destruction = False,
      sent = [], posted = [], dlog = []\<rparr>"

section \<open>Session history counters\<close>

text \<open>\<^verbatim>\<open>RenderView::GoToEntryAtOffset\<close>, lines 2469-2474.\<close>

definition GoToEntryAtOffset :: "int32 \<Rightarrow> RenderView \<Rightarrow> RenderView" where
  "GoToEntryAtOffset offset v =
     Send (ViewHostMsg_GoToEntryAtOffset (routing_id v) offset)
       (v\<lparr>history_back_list_count := history_back_list_count v + offset,
          history_forward_list_count := history_forward_list_count v - offset\<rparr>)"


section \<open>Loading-state callbacks\<close>

text \<open>\<^verbatim>\<open>RenderView::AddGURLSearchProvider\<close>, lines 1665-1669.\<close>

definition AddGURLSearchProvider :: "GURL \<Rightarrow> bool \<Rightarrow> RenderView \<Rightarrow> RenderView" where
  "AddGURLSearchProvider osd_url autodetected v =
     (if \<not> is_empty osd_url
      then Send (ViewHostMsg_PageHasOSDD (routing_id v) (page_id v) osd_url autodetected) v
      else v)"

text \<open>\<^verbatim>\<open>RenderView::ResetPendingUpload\<close> and \<^verbatim>\<open>ProcessPendingUpload\<close>, lines 2640-2648.\<close>

definition ResetPendingUpload :: "RenderView \<Rightarrow> RenderView" where
  "ResetPendingUpload v = v\<lparr>pending_upload_data := None\<rparr>"

definition ProcessPendingUpload :: "RenderView \<Rightarrow> RenderView" where
  "ProcessPendingUpload v =
     (case pending_upload_data v of
        None \<Rightarrow> v
      | Some f \<Rightarrow>
          (case webview v of
             None \<Rightarrow> v
           | Some w \<Rightarrow> if fill_form_to_upload_file w then ResetPendingUpload v else v))"

text \<open>\<^verbatim>\<open>RenderView::DidStartLoading\<close>, lines 1149-1161.\<close>

definition DidStartLoading :: "RenderView \<Rightarrow> RenderView" where
  "DidStartLoading v =
     (if is_loading v then DLOG_WARNING ''DidStartLoading called while loading'' v
      else Send (ViewHostMsg_DidStartLoading (routing_id v) (page_id v))
             (v\<lparr>is_loading := True, first_default_plugin := None\<rparr>))"

text \<open>
  \<^verbatim>\<open>RenderView::DidStopLoading\<close>, lines 1163-1196. Past the guard the main frame of
  the web view is dereferenced unchecked: \<open>None\<close> is that crash.
\<close>

definition DidStopLoading :: "RenderView \<Rightarrow> RenderView option" where
  "DidStopLoading v =
     (if \<not> is_loading v then Some (DLOG_WARNING ''DidStopLoading called while not loading'' v)
      else
        (case webview v of
           None \<Rightarrow> None
         | Some w \<Rightarrow>
             (case main_frame w of
                None \<Rightarrow> None
              | Some mf \<Rightarrow>
                  let v1 = v\<lparr>is_loading := False\<rparr>;
                      v2 = (if \<not> is_empty (fav_icon_url mf)
                            then Send (ViewHostMsg_UpdateFavIconURL (routing_id v1) (page_id v1)
                                         (fav_icon_url mf)) v1
                            else v1);
                      v3 = AddGURLSearchProvider (osdd_url mf) True v2;
                      v4 = Send (ViewHostMsg_DidStopLoading (routing_id v3) (page_id v3)) v3;
                      v5 = v4\<lparr>posted := posted v4 @
                                    [Task_CapturePageInfo (page_id v4) False kDelayForCaptureMs]\<rparr>;
                      v6 = ProcessPendingUpload v5
                  in Some (ResetPendingUpload v6))))"

section \<open>Page capture\<close>

text \<open>
  Modelled from the spec: \<^verbatim>\<open>kWhitespaceWide\<close> (base/string_util) is not among the
  sources; the ASCII white space characters stand for it.
\<close>

definition kWhitespaceWide :: "char list" where
  "kWhitespaceWide = [CHR 0x09, CHR 0x0A, CHR 0x0B, CHR 0x0C, CHR 0x0D, CHR 0x20]"

text \<open>\<^verbatim>\<open>std::wstring::find_last_of\<close>: the greatest index holding one of the characters.\<close>

fun find_last_of :: "char list \<Rightarrow> string \<Rightarrow> nat option" where
  "find_last_of cs [] = None"
| "find_last_of cs (x # xs) =
     (case find_last_of cs xs of
        Some i \<Rightarrow> Some (Suc i)
      | None \<Rightarrow> if x \<in> set cs then Some 0 else None)"

text \<open>
  Modelled from the spec: \<^verbatim>\<open>WebFrame::GetContentAsPlainText\<close> belongs to the engine;
  it yields the frame's text clipped to the given number of characters.
\<close>

definition GetContentAsPlainText :: "nat \<Rightarrow> WebFrame \<Rightarrow> string" where
  "GetContentAsPlainText max_chars f = take max_chars (frame_text f)"

text \<open>
  \<^verbatim>\<open>RenderView::CaptureText\<close>, lines 666-704; the result is the out parameter
  \<^verbatim>\<open>contents\<close>. With no white space in a clipped text the function returns early and
  leaves the clipped text in place.
\<close>

definition CaptureText :: "WebFrame option \<Rightarrow> string" where
  "CaptureText frame =
     (case frame of
        None \<Rightarrow> []
      | Some f \<Rightarrow>
          if SchemeIsSecure (frame_url f) then []
          else
            let contents = GetContentAsPlainText kMaxIndexChars f in
            if length contents = kMaxIndexChars
            then (case find_last_of kWhitespaceWide contents of
                    None \<Rightarrow> contents
                  | Some last_space_index \<Rightarrow> take last_space_index contents)
            else contents)"

text \<open>
  \<^verbatim>\<open>RenderView::SendThumbnail\<close>, lines 444-465. \<^verbatim>\<open>CaptureThumbnail\<close> is the
  engine's work: the frame carries the bitmap it would give, if any.
\<close>

definition SendThumbnail :: "RenderView \<Rightarrow> RenderView option" where
  "SendThumbnail v =
     (case webview v of
        None \<Rightarrow> None
      | Some w \<Rightarrow>
          (case main_frame w of
             None \<Rightarrow> Some v
           | Some mf \<Rightarrow>
               if is_empty (frame_url mf) then Some v
               else if view_size_is_empty v then Some v
               else
                 (case thumbnail_capture mf of
                    None \<Rightarrow> Some v
                  | Some thumbnail \<Rightarrow>
                      Some (Send (ViewHostMsg_Thumbnail (routing_id v) (frame_url mf) thumbnail) v))))"

text \<open>\<^verbatim>\<open>RenderView::CapturePageInfo\<close>, lines 623-664.\<close>

definition CapturePageInfo :: "int32 \<Rightarrow> bool \<Rightarrow> RenderView \<Rightarrow> RenderView option" where
  "CapturePageInfo load_id preliminary_capture v =
     (if load_id \<noteq> page_id v then Some v
      else if load_id = last_indexed_page_id v then Some v
      else
        (case webview v of
           None \<Rightarrow> Some v
         | Some w \<Rightarrow>
             (case main_frame w of
                None \<Rightarrow> Some v
              | Some mf \<Rightarrow>
                  if in_view_source_mode mf then Some v
                  else if (case data_source mf of None \<Rightarrow> False
                           | Some ds \<Rightarrow> has_unreachable_url ds) then Some v
                  else
                    let v1 = (if \<not> preliminary_capture then v\<lparr>last_indexed_page_id := load_id\<rparr>
                              else v);
                        url = frame_url mf
                    in if is_empty url then Some v1
                       else
                         let contents = CaptureText (Some mf);
                             v2 = (if contents \<noteq> []
                                   then Send (ViewHostMsg_PageContents url load_id contents) v1
                                   else v1)
                         in SendThumbnail v2)))"

definition is_PageContents :: "ViewHostMsg \<Rightarrow> bool" where
  "is_PageContents m = (case m of ViewHostMsg_PageContents u l c \<Rightarrow> True | _ \<Rightarrow> False)"

section \<open>Target URL updates\<close>

text \<open>\<^verbatim>\<open>GURL::operator==\<close> compares the text of the two URLs.\<close>

definition GURL_eq :: "GURL \<Rightarrow> GURL \<Rightarrow> bool" where
  "GURL_eq a b = (url_spec a = url_spec b)"

text \<open>\<^verbatim>\<open>RenderView::UpdateTargetURL\<close>, lines 1750-1765.\<close>

definition UpdateTargetURL :: "GURL \<Rightarrow> RenderView \<Rightarrow> RenderView" where
  "UpdateTargetURL url v =
     (if \<not> GURL_eq url (target_url v) then
        (if target_url_status v = TARGET_INFLIGHT \<or> target_url_status v = TARGET_PENDING
         then v\<lparr>pending_target_url := url, target_url_status := TARGET_PENDING\<rparr>
         else (Send (ViewHostMsg_UpdateTargetURL (routing_id v) (page_id v) url) v)
                \<lparr>target_url := url, target_url_status := TARGET_INFLIGHT\<rparr>)
      else v)"

text \<open>\<^verbatim>\<open>RenderView::OnUpdateTargetURLAck\<close>, lines 891-899.\<close>

definition OnUpdateTargetURLAck :: "RenderView \<Rightarrow> RenderView" where
  "OnUpdateTargetURLAck v =
     (if target_url_status v = TARGET_PENDING
      then Send (ViewHostMsg_UpdateTargetURL (routing_id v) (page_id v) (pending_target_url v)) v
      else v)\<lparr>target_url_status := TARGET_NONE\<rparr>"

text \<open>The URLs handed to \<open>UpdateTargetURL\<close> one after the other, with no ACK in between.\<close>

fun UpdateTargetURLs :: "GURL list \<Rightarrow> RenderView \<Rightarrow> RenderView" where
  "UpdateTargetURLs [] v = v"
| "UpdateTargetURLs (u # us) v = UpdateTargetURLs us (UpdateTargetURL u v)"



text \<open>
  What reaches the view about target URLs: a call of \<open>UpdateTargetURL\<close> from the engine,
  or the browser's \<^verbatim>\<open>ViewMsg_UpdateTargetURL_ACK\<close>, which the message map hands to
  \<open>OnUpdateTargetURLAck\<close>.
\<close>

datatype TargetURL_event = Call_UpdateTargetURL GURL | Msg_UpdateTargetURL_ACK

fun target_url_events :: "TargetURL_event list \<Rightarrow> RenderView \<Rightarrow> RenderView" where
  "target_url_events [] v = v"
| "target_url_events (Call_UpdateTargetURL u # es) v = target_url_events es (UpdateTargetURL u v)"
| "target_url_events (Msg_UpdateTargetURL_ACK # es) v = target_url_events es (OnUpdateTargetURLAck v)"

definition is_UpdateTargetURL :: "ViewHostMsg \<Rightarrow> bool" where
  "is_UpdateTargetURL m = (case m of ViewHostMsg_UpdateTargetURL r p u \<Rightarrow> True | _ \<Rightarrow> False)"

text \<open>
  The updates in flight after the events, on a view that starts with an empty outbox: the
  \<open>ViewHostMsg_UpdateTargetURL\<close> messages sent less the ACKs received.
\<close>

definition updates_in_flight :: "TargetURL_event list \<Rightarrow> RenderView \<Rightarrow> int" where
  "updates_in_flight es v =
     int (length (filter is_UpdateTargetURL (sent (target_url_events es v))))
     - int (length (filter (\<lambda>e. e = Msg_UpdateTargetURL_ACK) es))"

section \<open>Navigation bookkeeping\<close>

text \<open>\<^verbatim>\<open>std::max\<close> on \<^verbatim>\<open>int32\<close>: the second argument when the first is less, signed.\<close>

definition std_max :: "int32 \<Rightarrow> int32 \<Rightarrow> int32" where
  "std_max a b = (if sint a < sint b then b else a)"

text \<open>The extra data hanging on a frame's request is one object: updating it in place.\<close>

definition map_extra_data ::
  "(RenderViewExtraRequestData \<Rightarrow> RenderViewExtraRequestData) \<Rightarrow> WebFrame \<Rightarrow> WebFrame" where
  "map_extra_data g f =
     (case data_source f of
        None \<Rightarrow> f
      | Some ds \<Rightarrow>
          f\<lparr>data_source :=
              Some (ds\<lparr>request := (request ds)\<lparr>extra_data :=
                      map_option g (extra_data (request ds))\<rparr>\<rparr>)\<rparr>)"

text \<open>
  \<^verbatim>\<open>RenderView::UpdateSessionHistory\<close>, lines 1133-1144. \<open>None\<close> is the crash of
  dereferencing a missing web view or main frame.
\<close>

definition UpdateSessionHistory :: "frame_ref \<Rightarrow> RenderView \<Rightarrow> RenderView option" where
  "UpdateSessionHistory frame v =
     (if page_id v = - 1 then Some v
      else do {
        w \<leftarrow> webview v;
        mf \<leftarrow> main_frame w;
        (case previous_history_state mf of
           None \<Rightarrow> Some v
         | Some state \<Rightarrow> Some (Send (ViewHostMsg_UpdateState (routing_id v) (page_id v) state) v))
      })"

text \<open>
  The members of \<^verbatim>\<open>params\<close> that \<^verbatim>\<open>UpdateURL\<close> fills in before it looks at the
  kind of frame, lines 974-1026. The transition is assigned in both branches afterwards.
\<close>

definition common_params :: "RenderView \<Rightarrow> WebDataSource \<Rightarrow> FrameNavigate_Params" where
  "common_params v ds =
     \<lparr>p_page_id = page_id v,
      p_url = (if has_unreachable_url ds then unreachable_url ds else request_url (request ds)),
      p_referrer = GURL_empty,
      p_transition = plain LINK,
      p_redirects = redirect_chain ds,
      p_should_update_history = (\<not> has_unreachable_url ds),
      p_searchable_form = searchable_form_data ds,
      p_password_form = password_form_data ds,
      p_security_info = (if request_security_info (request ds) \<noteq> []
                         then request_security_info (request ds)
                         else response_security_info (response ds)),
      p_gesture = navigation_gesture v,
      p_contents_mime_type = [],
      p_is_post = False,
      p_is_content_filtered = is_content_filtered (response ds),
      p_http_status_code = http_status_code (response ds)\<rparr>"

text \<open>The top-level branch of \<^verbatim>\<open>UpdateURL\<close>, lines 1028-1075.\<close>

definition main_frame_params ::
  "RenderView \<Rightarrow> WebDataSource \<Rightarrow> FrameNavigate_Params \<Rightarrow> FrameNavigate_Params" where
  "main_frame_params v ds params =
     (let t0 = (case extra_data (request ds) of
                  Some e \<Rightarrow> transition_type e
                | None \<Rightarrow> plain LINK);
          t1 = (if \<not> IsMainFrame t0 then plain LINK else t0);
          t2 = (if t1 = plain LINK \<and> is_form_submit ds then plain FORM_SUBMIT else t1);
          redirected = url_is_valid (completed_client_redirect_src v)
      in params\<lparr>p_contents_mime_type := mime_type (response ds),
                p_referrer := (if redirected then completed_client_redirect_src v
                               else http_referrer (initial_request ds)),
                p_transition := (if redirected then or_CLIENT_REDIRECT t2 else t2),
                p_is_post := (http_method (request ds) = ''POST'')\<rparr>)"

text \<open>The subframe branch of \<^verbatim>\<open>UpdateURL\<close>, lines 1076-1091.\<close>

definition subframe_params :: "RenderView \<Rightarrow> FrameNavigate_Params \<Rightarrow> FrameNavigate_Params" where
  "subframe_params v params =
     params\<lparr>p_transition :=
       (if sint (last_page_id_sent_to_browser v) < sint (page_id v)
        then plain MANUAL_SUBFRAME else plain AUTO_SUBFRAME)\<rparr>"

text \<open>
  \<^verbatim>\<open>RenderView::UpdateURL\<close>, lines 973-1110. \<open>None\<close> is the crash on a frame without a
  data source; the \<^verbatim>\<open>DCHECK\<close>s are not compiled into a release build and the
  accessibility cache has no part in the state kept here.
\<close>

definition UpdateURL :: "frame_ref \<Rightarrow> RenderView \<Rightarrow> RenderView option" where
  "UpdateURL frame v = do {
     w \<leftarrow> webview v;
     f \<leftarrow> get_frame w frame;
     ds \<leftarrow> data_source f;
     let params = common_params v ds;
     let v1 = v\<lparr>navigation_gesture := NavigationGestureUnknown\<rparr>;
     let v2 = (if frame = MainFrame
               then Send (ViewHostMsg_FrameNavigate (routing_id v1) (main_frame_params v1 ds params)) v1
               else Send (ViewHostMsg_FrameNavigate (routing_id v1) (subframe_params v1 params)) v1);
     let v3 = v2\<lparr>last_page_id_sent_to_browser :=
                    std_max (last_page_id_sent_to_browser v2) (page_id v2)\<rparr>;
     Some (if extra_data (request ds) \<noteq> None
           then v3\<lparr>webview :=
                  Some (put_frame w frame
                          (map_extra_data (\<lambda>e. e\<lparr>transition_type := plain LINK\<rparr>) f))\<rparr>
           else v3)
   }"

text \<open>\<^verbatim>\<open>RenderView::UpdateEncoding\<close>, lines 1118-1128.\<close>

definition UpdateEncoding :: "frame_ref \<Rightarrow> string \<Rightarrow> RenderView \<Rightarrow> RenderView option" where
  "UpdateEncoding frame encoding_name v = do {
     w \<leftarrow> webview v;
     Some (if frame = MainFrame \<and> last_encoding_name v \<noteq> encoding_name
           then Send (ViewHostMsg_UpdateEncoding (routing_id v) encoding_name)
                  (v\<lparr>last_encoding_name := encoding_name\<rparr>)
           else v)
   }"

text \<open>
  The first half of \<^verbatim>\<open>RenderView::DidCommitLoadForFrame\<close>, lines 1362-1392: the page
  id of the commit. A new navigation takes the static counter and increments it.
\<close>

definition commit_page_id ::
  "frame_ref \<Rightarrow> bool \<Rightarrow> RenderViewExtraRequestData option \<Rightarrow> Renderer \<times> RenderView
   \<Rightarrow> (Renderer \<times> RenderView) option" where
  "commit_page_id frame is_new_nav extra gv =
     (case gv of (g, v) \<Rightarrow>
        if is_new_nav then do {
          v1 \<leftarrow> UpdateSessionHistory frame v;
          let v2 = v1\<lparr>page_id := next_page_id g\<rparr>;
          let g' = g\<lparr>next_page_id := next_page_id g + 1\<rparr>;
          Some (g', v2\<lparr>posted := posted v2 @
                  [Task_CapturePageInfo (page_id v2) True kDelayForForcedCaptureMs]\<rparr>)
        }
        else
          (case extra of
             None \<Rightarrow> Some (g, v)
           | Some e \<Rightarrow>
               if \<not> is_new_navigation e \<and> \<not> request_committed e \<and> page_id v \<noteq> pending_page_id e
               then do {
                 v1 \<leftarrow> UpdateSessionHistory frame v;
                 Some (g, v1\<lparr>page_id := pending_page_id e\<rparr>)
               }
               else Some (g, v)))"

text \<open>
  \<^verbatim>\<open>RenderView::DidCommitLoadForFrame\<close>, lines 1355-1410, on the process state and
  the view. The extra data is that of the main frame's request.
\<close>

definition DidCommitLoadForFrame ::
  "frame_ref \<Rightarrow> bool \<Rightarrow> Renderer \<times> RenderView \<Rightarrow> (Renderer \<times> RenderView) option" where
  "DidCommitLoadForFrame frame is_new_nav gv = do {
     w \<leftarrow> webview (snd gv);
     mf \<leftarrow> main_frame w;
     mds \<leftarrow> data_source mf;
     let extra = extra_data (request mds);
     (g1, v1) \<leftarrow> commit_page_id frame is_new_nav extra gv;
     let v2 = (if extra \<noteq> None
               then v1\<lparr>webview :=
                      Some (put_frame w MainFrame
                              (map_extra_data (\<lambda>e. e\<lparr>request_committed := True\<rparr>) mf))\<rparr>
               else v1);
     v3 \<leftarrow> UpdateURL frame v2;
     let v4 = v3\<lparr>completed_client_redirect_src := GURL_empty\<rparr>;
     v5 \<leftarrow> UpdateEncoding frame (main_frame_encoding_name w) v4;
     Some (g1, v5)
   }"

text \<open>\<^verbatim>\<open>RenderView::SetNextPageID\<close> (lines 243-249) and \<^verbatim>\<open>OnReservePageIDRange\<close> (2597-2599).\<close>

definition SetNextPageID :: "int32 \<Rightarrow> Renderer \<Rightarrow> Renderer" where
  "SetNextPageID n g = g\<lparr>next_page_id := n\<rparr>"

definition OnReservePageIDRange :: "int32 \<Rightarrow> Renderer \<Rightarrow> Renderer" where
  "OnReservePageIDRange size_of_range g = g\<lparr>next_page_id := next_page_id g + (size_of_range + 1)\<rparr>"

text \<open>The process at start-up: \<^verbatim>\<open>next_page_id_ = 1\<close>, line 134.\<close>

definition Renderer_initial :: Renderer where
  "Renderer_initial = \<lparr>next_page_id = 1, counters = (\<lambda>a. 0), next_counter = 0, thread_sent = []\<rparr>"

text \<open>
  A sequence of committed new navigations of the process: each is a call of
  \<open>DidCommitLoadForFrame\<close> with \<open>is_new_navigation\<close> true on some frame of some view,
  in whatever state that view is by then; the static counter is what the calls share. The
  result lists the page ids the views were given, in order.
\<close>

fun new_navigations ::
  "(frame_ref \<times> RenderView) list \<Rightarrow> Renderer \<Rightarrow> (int32 list \<times> Renderer) option" where
  "new_navigations [] g = Some ([], g)"
| "new_navigations ((frame, v) # rest) g =
     (case DidCommitLoadForFrame frame True (g, v) of
        None \<Rightarrow> None
      | Some (g1, v1) \<Rightarrow>
          (case new_navigations rest g1 of
             None \<Rightarrow> None
           | Some (ids, g2) \<Rightarrow> Some (page_id v1 # ids, g2)))"

text \<open>The engine has a committed load for the frame: the frame and the main frame have data sources.\<close>

definition has_committed_load :: "RenderView \<Rightarrow> frame_ref \<Rightarrow> bool" where
  "has_committed_load v frame =
     (case webview v of
        None \<Rightarrow> False
      | Some w \<Rightarrow>
          (case main_frame w of None \<Rightarrow> False | Some mf \<Rightarrow> data_source mf \<noteq> None)
          \<and> (case get_frame w frame of None \<Rightarrow> False | Some f \<Rightarrow> data_source f \<noteq> None))"


section \<open>Popups\<close>

text \<open>
  \<^verbatim>\<open>RenderView::Init\<close>, lines 281-347, for the members kept here: the opener, the
  popup counter (shared with the opener when one is given, a fresh one otherwise), the web
  view that the engine creates, and the routing id.
\<close>

definition Init ::
  "int32 \<Rightarrow> WebView \<Rightarrow> nat option \<Rightarrow> int32 \<Rightarrow> Renderer \<times> RenderView \<Rightarrow> Renderer \<times> RenderView" where
  "Init opener new_webview counter routing gv =
     (case gv of (g, v) \<Rightarrow>
        let v1 = (if opener \<noteq> MSG_ROUTING_NONE then v\<lparr>opener_id := opener\<rparr> else v);
            (g2, v2) =
              (case counter of
                 Some c \<Rightarrow>
                   (g\<lparr>counters := (counters g)(c := counters g c + 1)\<rparr>,
                    v1\<lparr>shared_popup_counter := c, decrement_shared_popup_at_destruction := True\<rparr>)
               | None \<Rightarrow>
                   (g\<lparr>counters := (counters g)(next_counter g := 0),
                      next_counter := Suc (next_counter g)\<rparr>,
                    v1\<lparr>shared_popup_counter := next_counter g,
                       decrement_shared_popup_at_destruction := False\<rparr>))
        in (g2, v2\<lparr>webview := Some new_webview, routing_id := routing\<rparr>))"

text \<open>\<^verbatim>\<open>RenderView::Create\<close>, lines 223-240.\<close>

definition Create ::
  "int32 \<Rightarrow> WebView \<Rightarrow> nat option \<Rightarrow> int32 \<Rightarrow> Renderer \<Rightarrow> Renderer \<times> RenderView" where
  "Create opener new_webview counter routing g =
     Init opener new_webview counter routing (g, RenderView_ctor)"

text \<open>
  \<^verbatim>\<open>RenderView::CreateWebView\<close>, lines 1804-1842. \<open>reply\<close> is the routing id that the
  browser writes into the synchronous \<^verbatim>\<open>ViewHostMsg_CreateWindow\<close>, \<open>new_webview\<close> the
  web view the engine makes for the new view. The result is the process, this view and the
  view that was created, if any (\<^verbatim>\<open>NULL\<close> is \<open>None\<close>); the outer \<open>None\<close> is the crash
  of asking a missing web view for its preferences.
\<close>

definition CreateWebView ::
  "bool \<Rightarrow> int32 \<Rightarrow> WebView \<Rightarrow> Renderer \<times> RenderView
   \<Rightarrow> (Renderer \<times> RenderView \<times> RenderView option) option" where
  "CreateWebView user_gesture reply new_webview gv =
     (case gv of (g, v) \<Rightarrow>
        if sint kMaximumNumberOfUnacknowledgedPopups < sint (counters g (shared_popup_counter v))
        then Some (g, v, None)
        else
          let v1 = v\<lparr>popup_notification_visible := True\<rparr>;
              g1 = g\<lparr>thread_sent := thread_sent g @
                        [ViewHostMsg_CreateWindow (routing_id v1) user_gesture]\<rparr>
          in if reply = MSG_ROUTING_NONE then Some (g1, v1, None)
             else
               (case webview v1 of
                  None \<Rightarrow> None
                | Some w \<Rightarrow>
                    let (g2, view) = Create (routing_id v1) new_webview
                                       (Some (shared_popup_counter v1)) reply g1
                    in Some (g2, v1,
                             Some (view\<lparr>opened_by_user_gesture := user_gesture,
                                        alternate_error_page_url := alternate_error_page_url v1\<rparr>))))"

section \<open>Message dispatch\<close>

text \<open>
  An incoming message: its type, by the name of its message class, and what it carries.
\<close>

record IPC_Message =
  msg_type :: string
  msg_routing_id :: int32
  msg_payload :: string

text \<open>
  The entries of the message map of \<^verbatim>\<open>RenderView::OnMessageReceived\<close>, lines 360-441,
  in the order of the source: message class and member function.
\<close>

definition message_map :: "(string \<times> string) list" where
  "message_map =
     [(''ViewMsg_CaptureThumbnail'', ''SendThumbnail''),
      (''ViewMsg_PrintPages'', ''OnPrintPages''),
      (''ViewMsg_Navigate'', ''OnNavigate''),
      (''ViewMsg_Stop'', ''OnStop''),
      (''ViewMsg_LoadAlternateHTMLText'', ''OnLoadAlternateHTMLText''),
      (''ViewMsg_StopFinding'', ''OnStopFinding''),
      (''ViewMsg_Undo'', ''OnUndo''),
      (''ViewMsg_Redo'', ''OnRedo''),
      (''ViewMsg_Cut'', ''OnCut''),
      (''ViewMsg_Copy'', ''OnCopy''),
      (''ViewMsg_Paste'', ''OnPaste''),
      (''ViewMsg_Replace'', ''OnReplace''),
      (''ViewMsg_ToggleSpellCheck'', ''OnToggleSpellCheck''),
      (''ViewMsg_Delete'', ''OnDelete''),
      (''ViewMsg_SelectAll'', ''OnSelectAll''),
      (''ViewMsg_CopyImageAt'', ''OnCopyImageAt''),
      (''ViewMsg_Find'', ''OnFind''),
      (''ViewMsg_Zoom'', ''OnZoom''),
      (''ViewMsg_InsertText'', ''OnInsertText''),
      (''ViewMsg_SetPageEncoding'', ''OnSetPageEncoding''),
      (''ViewMsg_InspectElement'', ''OnInspectElement''),
      (''ViewMsg_ShowJavaScriptConsole'', ''OnShowJavaScriptConsole''),
      (''ViewMsg_SetupDevToolsClient'', ''OnSetupDevToolsClient''),
      (''ViewMsg_DownloadImage'', ''OnDownloadImage''),
      (''ViewMsg_ScriptEvalRequest'', ''OnScriptEvalRequest''),
      (''ViewMsg_CSSInsertRequest'', ''OnCSSInsertRequest''),
      (''ViewMsg_AddMessageToConsole'', ''OnAddMessageToConsole''),
      (''ViewMsg_DebugAttach'', ''OnDebugAttach''),
      (''ViewMsg_DebugDetach'', ''OnDebugDetach''),
      (''ViewMsg_ReservePageIDRange'', ''OnReservePageIDRange''),
      (''ViewMsg_UploadFile'', ''OnUploadFileRequest''),
      (''ViewMsg_FormFill'', ''OnFormFill''),
      (''ViewMsg_FillPasswordForm'', ''OnFillPasswordForm''),
      (''ViewMsg_DragTargetDragEnter'', ''OnDragTargetDragEnter''),
      (''ViewMsg_DragTargetDragOver'', ''OnDragTargetDragOver''),
      (''ViewMsg_DragTargetDragLeave'', ''OnDragTargetDragLeave''),
      (''ViewMsg_DragTargetDrop'', ''OnDragTargetDrop''),
      (''ViewMsg_AllowBindings'', ''OnAllowBindings''),
      (''ViewMsg_SetDOMUIProperty'', ''OnSetDOMUIProperty''),
      (''ViewMsg_DragSourceEndedOrMoved'', ''OnDragSourceEndedOrMoved''),
      (''ViewMsg_DragSourceSystemDragEnded'', ''OnDragSourceSystemDragEnded''),
      (''ViewMsg_SetInitialFocus'', ''OnSetInitialFocus''),
      (''ViewMsg_FindReplyACK'', ''OnFindReplyAck''),
      (''ViewMsg_UpdateTargetURL_ACK'', ''OnUpdateTargetURLAck''),
      (''ViewMsg_UpdateWebPreferences'', ''OnUpdateWebPreferences''),
      (''ViewMsg_SetAltErrorPageURL'', ''OnSetAltErrorPageURL''),
      (''ViewMsg_InstallMissingPlugin'', ''OnInstallMissingPlugin''),
      (''ViewMsg_RunFileChooserResponse'', ''OnFileChooserResponse''),
      (''ViewMsg_EnableViewSourceMode'', ''OnEnableViewSourceMode''),
      (''ViewMsg_UpdateBackForwardListCount'', ''OnUpdateBackForwardListCount''),
      (''ViewMsg_GetAllSavableResourceLinksForCurrentPage'', ''OnGetAllSavableResourceLinksForCurrentPage''),
      (''ViewMsg_GetSerializedHtmlDataForCurrentPageWithLocalLinks'', ''OnGetSerializedHtmlDataForCurrentPageWithLocalLinks''),
      (''ViewMsg_GetApplicationInfo'', ''OnGetApplicationInfo''),
      (''ViewMsg_GetAccessibilityInfo'', ''OnGetAccessibilityInfo''),
      (''ViewMsg_ClearAccessibilityInfo'', ''OnClearAccessibilityInfo''),
      (''ViewMsg_ShouldClose'', ''OnMsgShouldClose''),
      (''ViewMsg_ClosePage'', ''OnClosePage''),
      (''ViewMsg_ThemeChanged'', ''OnThemeChanged''),
      (''ViewMsg_HandleMessageFromExternalHost'', ''OnMessageFromExternalHost''),
      (''ViewMsg_DisassociateFromPopupCount'', ''OnDisassociateFromPopupCount''),
      (''ViewMsg_AutofillSuggestions'', ''OnReceivedAutofillSuggestions''),
      (''ViewMsg_PopupNotificationVisiblityChanged'', ''OnPopupNotificationVisiblityChanged''),
      (''ViewMsg_MoveOrResizeStarted'', ''OnMoveOrResizeStarted''),
      (''ViewMsg_ExtensionResponse'', ''OnExtensionResponse''),
      (''ViewMsg_ClearFocusedNode'', ''OnClearFocusedNode''),
      (''ViewMsg_SetBackground'', ''OnSetBackground'')]"

datatype dispatched =
  devtools_client_OnMessageReceived
| devtools_agent_OnMessageReceived
| Handler string IPC_Message
| RenderWidget_OnMessageReceived IPC_Message

text \<open>
  Modelled from the spec: the macros \<^verbatim>\<open>IPC_BEGIN_MESSAGE_MAP\<close>, \<^verbatim>\<open>IPC_MESSAGE_HANDLER\<close>
  and \<^verbatim>\<open>IPC_MESSAGE_UNHANDLED\<close> (ipc_message_macros.h) are not among the sources; they
  expand into a linear dispatch table: the entries are tried in order, the first whose
  message type is that of the message names the handler, and the unhandled clause takes
  a message that no entry matches.
\<close>

fun IPC_MESSAGE_MAP ::
  "(string \<times> string) list \<Rightarrow> (IPC_Message \<Rightarrow> dispatched) \<Rightarrow> IPC_Message \<Rightarrow> dispatched" where
  "IPC_MESSAGE_MAP [] unhandled m = unhandled m"
| "IPC_MESSAGE_MAP ((ty, member_func) # entries) unhandled m =
     (if msg_type m = ty then Handler member_func m
      else IPC_MESSAGE_MAP entries unhandled m)"

text \<open>\<^verbatim>\<open>p.get() && p->OnMessageReceived(message)\<close>: the object is there and takes the message.\<close>

definition takes :: "(IPC_Message \<Rightarrow> bool) option \<Rightarrow> IPC_Message \<Rightarrow> bool" where
  "takes p message = (case p of None \<Rightarrow> False | Some on_message_received \<Rightarrow> on_message_received message)"

text \<open>
  \<^verbatim>\<open>RenderView::OnMessageReceived\<close>, lines 349-442. The developer tools client and
  agent, when the view has them, say whether they took the message.
\<close>

definition OnMessageReceived ::
  "(IPC_Message \<Rightarrow> bool) option \<Rightarrow> (IPC_Message \<Rightarrow> bool) option \<Rightarrow> IPC_Message \<Rightarrow> dispatched" where
  "OnMessageReceived devtools_client devtools_agent message =
     (if takes devtools_client message then devtools_client_OnMessageReceived
      else if takes devtools_agent message then devtools_agent_OnMessageReceived
      else IPC_MESSAGE_MAP message_map RenderWidget_OnMessageReceived message)"

section \<open>The test shell's drag delegate\<close>

record CPoint =
  pt_x :: int32
  pt_y :: int32

text \<open>
  What the operating system answers: \<^verbatim>\<open>GetCursorPos\<close> gives the cursor in screen
  coordinates or fails, \<^verbatim>\<open>ScreenToClient\<close> maps a point into a window.
\<close>

record Windows =
  GetCursorPos :: "CPoint option"
  ScreenToClient :: "nat \<Rightarrow> CPoint \<Rightarrow> CPoint"

text \<open>\<^verbatim>\<open>GetCursorPositions\<close>, lines 38-46 of drag_delegate.cc: client and screen point.\<close>

definition GetCursorPositions :: "Windows \<Rightarrow> nat \<Rightarrow> CPoint \<times> CPoint" where
  "GetCursorPositions os hwnd =
     (let screen = (case GetCursorPos os of
                      None \<Rightarrow> \<lparr>pt_x = 0, pt_y = 0\<rparr>
                    | Some p \<Rightarrow> p);
          client = ScreenToClient os hwnd screen
      in (client, screen))"

datatype WebView_call =
  DragSourceEndedAt int32 int32 int32 int32
| DragSourceMovedTo int32 int32 int32 int32

text \<open>The delegate: its source window and the calls it has made on its web view.\<close>

record TestDragDelegate =
  source_hwnd :: nat
  webview_calls :: "WebView_call list"

text \<open>\<^verbatim>\<open>TestDragDelegate::OnDragSourceDrop\<close>, lines 54-59.\<close>

definition OnDragSourceDrop :: "Windows \<Rightarrow> TestDragDelegate \<Rightarrow> TestDragDelegate" where
  "OnDragSourceDrop os d =
     (case GetCursorPositions os (source_hwnd d) of (client, screen) \<Rightarrow>
        d\<lparr>webview_calls := webview_calls d @
             [DragSourceEndedAt (pt_x client) (pt_y client) (pt_x screen) (pt_y screen)]\<rparr>)"

text \<open>\<^verbatim>\<open>TestDragDelegate::OnDragSourceCancel\<close>, lines 50-52.\<close>

definition OnDragSourceCancel :: "Windows \<Rightarrow> TestDragDelegate \<Rightarrow> TestDragDelegate" where
  "OnDragSourceCancel os d = OnDragSourceDrop os d"

text \<open>\<^verbatim>\<open>TestDragDelegate::OnDragSourceMove\<close>, lines 60-65.\<close>

definition OnDragSourceMove :: "Windows \<Rightarrow> TestDragDelegate \<Rightarrow> TestDragDelegate" where
  "OnDragSourceMove os d =
     (case GetCursorPositions os (source_hwnd d) of (client, screen) \<Rightarrow>
        d\<lparr>webview_calls := webview_calls d @
             [DragSourceMovedTo (pt_x client) (pt_y client) (pt_x screen) (pt_y screen)]\<rparr>)"

section \<open>The test shell's cache mode\<close>

text \<open>
  Modelled from the spec: \<^verbatim>\<open>CommandLine\<close> (base/command_line.h) is not among the
  sources. A parsed command line is the list of its switches with their values, and
  \<^verbatim>\<open>HasSwitch\<close> tells whether a switch is among them.
\<close>

type_synonym CommandLine = "(string \<times> string) list"

definition HasSwitch :: "CommandLine \<Rightarrow> string \<Rightarrow> bool" where
  "HasSwitch command_line switch = (switch \<in> set (map fst command_line))"

datatype HttpCache_Mode = NORMAL | RECORD | PLAYBACK

text \<open>
  The cache mode of \<^verbatim>\<open>main\<close>, lines 164-173 of test_shell_main.cc. The names of the two
  switches (test_shell_switches.h is not among the sources) are parameters.
\<close>

definition main_cache_mode :: "string \<Rightarrow> string \<Rightarrow> CommandLine \<Rightarrow> HttpCache_Mode" where
  "main_cache_mode kPlaybackMode kRecordMode parsed_command_line =
     (let cache_mode = NORMAL;
          playback_mode = HasSwitch parsed_command_line kPlaybackMode;
          record_mode = HasSwitch parsed_command_line kRecordMode
      in if playback_mode then PLAYBACK
         else if record_mode then RECORD
         else cache_mode)"

section \<open>Concrete inputs\<close>

text \<open>A page with one subframe, as the engine would show it, and a view that hosts it.\<close>

definition example_url :: "string \<Rightarrow> string \<Rightarrow> GURL" where
  "example_url sch sp = \<lparr>url_spec = sp, url_is_valid = True, url_scheme = sch\<rparr>"

definition example_request :: "GURL \<Rightarrow> WebRequest" where
  "example_request u =
     \<lparr>request_url = u, http_method = ''GET'', http_referrer = GURL_empty,
      request_security_info = [], extra_data = None\<rparr>"

definition example_data_source :: "GURL \<Rightarrow> WebDataSource" where
  "example_data_source u =
     \<lparr>request = example_request u, initial_request = example_request u,
      response = \<lparr>http_status_code = 200, is_content_filtered = False,
                  response_security_info = [], mime_type = ''text/html''\<rparr>,
      has_unreachable_url = False, unreachable_url = GURL_empty, redirect_chain = [u],
      searchable_form_data = None, password_form_data = None, is_form_submit = False\<rparr>"

definition example_frame :: "GURL \<Rightarrow> string \<Rightarrow> WebFrame" where
  "example_frame u txt =
     \<lparr>frame_url = u, data_source = Some (example_data_source u),
      in_view_source_mode = False, frame_text = txt,
      fav_icon_url = GURL_empty, osdd_url = GURL_empty,
      previous_history_state = None, thumbnail_capture = None\<rparr>"

definition example_webview :: "WebFrame \<Rightarrow> WebView" where
  "example_webview f =
     \<lparr>main_frame = Some f,
      sub_frames = [example_frame (example_url ''http'' ''http://ads.example/'') ''ad''],
      main_frame_encoding_name = ''UTF-8'', fill_form_to_upload_file = False\<rparr>"

definition example_view :: "WebFrame \<Rightarrow> RenderView" where
  "example_view f =
     RenderView_ctor\<lparr>routing_id := 1, webview := Some (example_webview f),
                     view_size_is_empty := False\<rparr>"

definition bank_frame :: WebFrame where
  "bank_frame = example_frame (example_url ''https'' ''https://bank.example/'') ''balance 100''"

definition news_frame :: WebFrame where
  "news_frame = example_frame (example_url ''http'' ''http://news.example/'') ''headline''"

section \<open>Theorems\<close>

text \<open>
  C3. For every offset, \<open>GoToEntryAtOffset\<close> adds the offset to the back counter and
  subtracts it from the forward counter, so the sum of the two counters is unchanged
  (also under 32-bit wrap-around), and it sends one \<open>GoToEntryAtOffset\<close> message with
  that offset and nothing else.
\<close>

theorem GoToEntryAtOffset_counters:
  "history_back_list_count (GoToEntryAtOffset offset v) = history_back_list_count v + offset
   \<and> history_forward_list_count (GoToEntryAtOffset offset v) = history_forward_list_count v - offset
   \<and> history_back_list_count (GoToEntryAtOffset offset v)
       + history_forward_list_count (GoToEntryAtOffset offset v)
     = history_back_list_count v + history_forward_list_count v
   \<and> sent (GoToEntryAtOffset offset v)
     = sent v @ [ViewHostMsg_GoToEntryAtOffset (routing_id v) offset]"
  by (simp add: GoToEntryAtOffset_def Send_def)

text \<open>
  C6. \<open>DidStartLoading\<close> on a view that is already loading, and \<open>DidStopLoading\<close> on
  a view that is not loading, only write the warning to the debug log: the result is the
  view with that one log line added, so \<open>is_loading\<close> and every other member are as
  before and nothing is sent.
\<close>

theorem loading_callbacks_log_and_continue:
  "(is_loading v \<longrightarrow>
      DidStartLoading v = v\<lparr>dlog := dlog v @ [''DidStartLoading called while loading'']\<rparr>
      \<and> is_loading (DidStartLoading v) = is_loading v
      \<and> sent (DidStartLoading v) = sent v)
   \<and> (\<not> is_loading v \<longrightarrow>
      DidStopLoading v = Some (v\<lparr>dlog := dlog v @ [''DidStopLoading called while not loading'']\<rparr>))"
  by (simp add: DidStartLoading_def DidStopLoading_def DLOG_WARNING_def)

theorem loading_callbacks_log_and_continue_witness:
  "is_loading (RenderView_ctor\<lparr>is_loading := True\<rparr>)
   \<and> sent (DidStartLoading (RenderView_ctor\<lparr>is_loading := True\<rparr>)) = []
   \<and> dlog (DidStartLoading (RenderView_ctor\<lparr>is_loading := True\<rparr>))
       = [''DidStartLoading called while loading'']
   \<and> \<not> is_loading RenderView_ctor
   \<and> DidStopLoading RenderView_ctor
       = Some (RenderView_ctor\<lparr>dlog := [''DidStopLoading called while not loading'']\<rparr>)"
  using loading_callbacks_log_and_continue [of "RenderView_ctor\<lparr>is_loading := True\<rparr>"]
    loading_callbacks_log_and_continue [of RenderView_ctor]
  by (simp add: RenderView_ctor_def)

subsection \<open>Page capture\<close>

lemma SendThumbnail_PageContents:
  "SendThumbnail v = Some v' \<Longrightarrow>
   filter is_PageContents (sent v') = filter is_PageContents (sent v)"
  by (auto simp: SendThumbnail_def Send_def is_PageContents_def
      split: option.splits if_splits)

lemma SendThumbnail_Some:
  "webview v \<noteq> None \<Longrightarrow> \<exists>v'. SendThumbnail v = Some v'"
  by (auto simp: SendThumbnail_def split: option.splits)

text \<open>
  C9. For a frame whose URL has the secure scheme \<open>CaptureText\<close> yields the empty
  string, and \<open>CapturePageInfo\<close> on a view whose main frame has such a URL returns
  without having sent any \<open>ViewHostMsg_PageContents\<close>: the page-contents messages of
  the outbox are those that were there before.
\<close>

theorem secure_pages_never_indexed:
  assumes "SchemeIsSecure (frame_url mf)"
  shows "CaptureText (Some mf) = []
    \<and> (webview v = Some w \<and> main_frame w = Some mf \<longrightarrow>
        (\<exists>v'. CapturePageInfo load_id preliminary_capture v = Some v'
           \<and> filter is_PageContents (sent v') = filter is_PageContents (sent v)))"
proof -
  have text_empty: "CaptureText (Some mf) = []"
    using assms by (simp add: CaptureText_def)
  have "\<exists>v'. CapturePageInfo load_id preliminary_capture v = Some v'
           \<and> filter is_PageContents (sent v') = filter is_PageContents (sent v)"
    if w: "webview v = Some w" and m: "main_frame w = Some mf"
  proof -
    let ?v1 = "if \<not> preliminary_capture then v\<lparr>last_indexed_page_id := load_id\<rparr> else v"
    have wv1: "webview ?v1 \<noteq> None" using w by simp
    obtain v' where v': "SendThumbnail ?v1 = Some v'"
      using SendThumbnail_Some [OF wv1] by blast
    have keep: "filter is_PageContents (sent v') = filter is_PageContents (sent v)"
      using SendThumbnail_PageContents [OF v'] by (simp split: if_splits)
    show ?thesis
      using w m text_empty v' keep
      by (auto simp: CapturePageInfo_def Let_def split: option.splits)
  qed
  with text_empty show ?thesis by blast
qed


theorem secure_pages_never_indexed_witness:
  "SchemeIsSecure (frame_url bank_frame)
   \<and> CaptureText (Some bank_frame) = []
   \<and> (\<exists>v'. CapturePageInfo 7 False ((example_view bank_frame)\<lparr>page_id := 7\<rparr>) = Some v'
          \<and> filter is_PageContents (sent v') = [])"
proof -
  have secure: "SchemeIsSecure (frame_url bank_frame)"
    by (simp add: SchemeIsSecure_def bank_frame_def example_frame_def example_url_def)
  have hosted: "webview ((example_view bank_frame)\<lparr>page_id := 7\<rparr>)
                  = Some (example_webview bank_frame)
                \<and> main_frame (example_webview bank_frame) = Some bank_frame"
    by (simp add: example_view_def example_webview_def)
  have none_before: "sent ((example_view bank_frame)\<lparr>page_id := 7\<rparr>) = []"
    by (simp add: example_view_def RenderView_ctor_def)
  show ?thesis
    using secure hosted none_before
      secure_pages_never_indexed [OF secure,
        of "(example_view bank_frame)\<lparr>page_id := 7\<rparr>" "example_webview bank_frame" 7 False]
    by simp
qed

text \<open>The same capture of a page that is not secure does send its text.\<close>

lemma CaptureText_news_frame: "CaptureText (Some news_frame) = ''headline''"
  by (simp add: CaptureText_def GetContentAsPlainText_def kMaxIndexChars_def SchemeIsSecure_def
      news_frame_def example_frame_def example_url_def)

lemma example_view_simps:
  "webview (example_view f) = Some (example_webview f)"
  "page_id (example_view f) = - 1"
  "last_indexed_page_id (example_view f) = - 1"
  "sent (example_view f) = []"
  "routing_id (example_view f) = 1"
  "view_size_is_empty (example_view f) = False"
  by (simp_all add: example_view_def RenderView_ctor_def)

lemma insecure_page_is_indexed:
  "CapturePageInfo 7 False ((example_view news_frame)\<lparr>page_id := 7\<rparr>)
   = Some ((example_view news_frame)
        \<lparr>page_id := 7, last_indexed_page_id := 7,
         sent := [ViewHostMsg_PageContents (example_url ''http'' ''http://news.example/'') 7
                    ''headline'']\<rparr>)"
proof -
  have mf: "main_frame (example_webview news_frame) = Some news_frame"
    by (simp add: example_webview_def)
  have fr: "frame_url news_frame = example_url ''http'' ''http://news.example/''"
    "in_view_source_mode news_frame = False"
    "data_source news_frame
       = Some (example_data_source (example_url ''http'' ''http://news.example/''))"
    "thumbnail_capture news_frame = None"
    by (simp_all add: news_frame_def example_frame_def)
  have ds: "has_unreachable_url (example_data_source u) = False" for u
    by (simp add: example_data_source_def)
  have ne: "\<not> is_empty (example_url ''http'' ''http://news.example/'')"
    by (simp add: is_empty_def example_url_def)
  show ?thesis
    by (simp add: CapturePageInfo_def CaptureText_news_frame SendThumbnail_def Send_def Let_def
        example_view_simps mf fr ds ne)
qed

subsection \<open>Target URL updates\<close>

lemma UpdateTargetURLs_awaiting_ack:
  "target_url_status v = TARGET_INFLIGHT \<or> target_url_status v = TARGET_PENDING \<Longrightarrow>
   UpdateTargetURLs us v =
     (if filter (\<lambda>x. \<not> GURL_eq x (target_url v)) us = [] then v
      else v\<lparr>pending_target_url := last (filter (\<lambda>x. \<not> GURL_eq x (target_url v)) us),
             target_url_status := TARGET_PENDING\<rparr>)"
proof (induction us arbitrary: v)
  case Nil
  then show ?case by simp
next
  case (Cons u us)
  show ?case
  proof (cases "GURL_eq u (target_url v)")
    case True
    then have "UpdateTargetURL u v = v" by (simp add: UpdateTargetURL_def)
    with Cons True show ?thesis by simp
  next
    case False
    let ?v1 = "v\<lparr>pending_target_url := u, target_url_status := TARGET_PENDING\<rparr>"
    have step: "UpdateTargetURL u v = ?v1"
      using False Cons.prems by (auto simp: UpdateTargetURL_def)
    have "target_url_status ?v1 = TARGET_INFLIGHT \<or> target_url_status ?v1 = TARGET_PENDING"
      by simp
    from Cons.IH [OF this] step False show ?thesis by simp
  qed
qed

text \<open>
  One cycle, up to its ACK. Let \<open>UpdateTargetURL\<close> send a URL \<open>u\<close> (status \<open>TARGET_NONE\<close>, \<open>u\<close> differs
  from the current target), and let any URLs \<open>us\<close> follow before the ACK. Then the first
  call appends the one message and enters \<open>TARGET_INFLIGHT\<close>; the calls that follow
  send nothing and change no member but \<open>pending_target_url\<close> and the status, which is
  \<open>TARGET_PENDING\<close> with the latest URL differing from \<open>u\<close> once there is one; and the
  ACK sends exactly that pending URL, or nothing when there is none, and resets the
  status to \<open>TARGET_NONE\<close>.
\<close>

lemma target_url_cycle_until_ack:
  assumes "target_url_status v = TARGET_NONE" and "\<not> GURL_eq u (target_url v)"
  shows "(let v1 = UpdateTargetURL u v;
              v2 = UpdateTargetURLs us v1;
              changes = filter (\<lambda>x. \<not> GURL_eq x u) us
          in sent v1 = sent v @ [ViewHostMsg_UpdateTargetURL (routing_id v) (page_id v) u]
           \<and> target_url_status v1 = TARGET_INFLIGHT
           \<and> sent v2 = sent v1
           \<and> v2 = (if changes = [] then v1
                   else v1\<lparr>pending_target_url := last changes,
                           target_url_status := TARGET_PENDING\<rparr>)
           \<and> sent (OnUpdateTargetURLAck v2)
               = sent v2 @ (if changes = [] then []
                            else [ViewHostMsg_UpdateTargetURL (routing_id v) (page_id v)
                                    (last changes)])
           \<and> target_url_status (OnUpdateTargetURLAck v2) = TARGET_NONE)"
proof -
  let ?v1 = "UpdateTargetURL u v"
  have v1: "?v1 = (Send (ViewHostMsg_UpdateTargetURL (routing_id v) (page_id v) u) v)
                    \<lparr>target_url := u, target_url_status := TARGET_INFLIGHT\<rparr>"
    using assms by (simp add: UpdateTargetURL_def)
  have inflight: "target_url_status ?v1 = TARGET_INFLIGHT \<or> target_url_status ?v1 = TARGET_PENDING"
    by (simp add: v1)
  have tgt: "target_url ?v1 = u" by (simp add: v1)
  note run = UpdateTargetURLs_awaiting_ack [OF inflight, of us, unfolded tgt]
  show ?thesis
    unfolding Let_def run
    by (simp add: v1 Send_def OnUpdateTargetURLAck_def)
qed

lemma target_url_cycle_until_ack_example:
  "target_url_status (example_view news_frame) = TARGET_NONE
   \<and> \<not> GURL_eq (example_url ''http'' ''a'') (target_url (example_view news_frame))
   \<and> sent (UpdateTargetURLs
        [example_url ''http'' ''b'', example_url ''http'' ''a'', example_url ''http'' ''c'']
        (UpdateTargetURL (example_url ''http'' ''a'') (example_view news_frame)))
       = [ViewHostMsg_UpdateTargetURL 1 (- 1) (example_url ''http'' ''a'')]
   \<and> sent (OnUpdateTargetURLAck (UpdateTargetURLs
        [example_url ''http'' ''b'', example_url ''http'' ''a'', example_url ''http'' ''c'']
        (UpdateTargetURL (example_url ''http'' ''a'') (example_view news_frame))))
       = [ViewHostMsg_UpdateTargetURL 1 (- 1) (example_url ''http'' ''a''),
          ViewHostMsg_UpdateTargetURL 1 (- 1) (example_url ''http'' ''c'')]"
proof -
  have none: "target_url_status (example_view news_frame) = TARGET_NONE"
    by (simp add: example_view_def RenderView_ctor_def)
  have differs: "\<not> GURL_eq (example_url ''http'' ''a'') (target_url (example_view news_frame))"
    by (simp add: GURL_eq_def example_url_def example_view_def RenderView_ctor_def GURL_empty_def)
  have changes: "filter (\<lambda>x. \<not> GURL_eq x (example_url ''http'' ''a''))
      [example_url ''http'' ''b'', example_url ''http'' ''a'', example_url ''http'' ''c'']
    = [example_url ''http'' ''b'', example_url ''http'' ''c'']"
    by (simp add: GURL_eq_def example_url_def)
  note run = target_url_cycle_until_ack [OF none differs,
        of "[example_url ''http'' ''b'', example_url ''http'' ''a'', example_url ''http'' ''c'']",
        unfolded Let_def changes]
  note A = run [THEN conjunct1]
  note B = run [THEN conjunct2, THEN conjunct2, THEN conjunct1]
  note E = run [THEN conjunct2, THEN conjunct2, THEN conjunct2, THEN conjunct2, THEN conjunct1]
  have s2: "sent (UpdateTargetURLs
        [example_url ''http'' ''b'', example_url ''http'' ''a'', example_url ''http'' ''c'']
        (UpdateTargetURL (example_url ''http'' ''a'') (example_view news_frame)))
       = [ViewHostMsg_UpdateTargetURL 1 (- 1) (example_url ''http'' ''a'')]"
    unfolding B A by (simp add: example_view_simps)
  have s3: "sent (OnUpdateTargetURLAck (UpdateTargetURLs
        [example_url ''http'' ''b'', example_url ''http'' ''a'', example_url ''http'' ''c'']
        (UpdateTargetURL (example_url ''http'' ''a'') (example_view news_frame))))
       = [ViewHostMsg_UpdateTargetURL 1 (- 1) (example_url ''http'' ''a''),
          ViewHostMsg_UpdateTargetURL 1 (- 1) (example_url ''http'' ''c'')]"
    unfolding E B A by (simp add: example_view_simps)
  from none differs s2 s3 show ?thesis by blast
qed

text \<open>
  The message that the ACK handler sends itself leaves the status \<open>TARGET_NONE\<close>, where
  \<open>UpdateTargetURL\<close> sets \<open>TARGET_INFLIGHT\<close> after its own send: the next changed URL
  goes out at once.
\<close>

lemma update_after_ack_of_pending_is_sent:
  "target_url_status v = TARGET_PENDING \<Longrightarrow> \<not> GURL_eq u (target_url v) \<Longrightarrow>
   sent (UpdateTargetURL u (OnUpdateTargetURLAck v))
   = sent v @ [ViewHostMsg_UpdateTargetURL (routing_id v) (page_id v) (pending_target_url v),
               ViewHostMsg_UpdateTargetURL (routing_id v) (page_id v) u]"
  by (simp add: UpdateTargetURL_def OnUpdateTargetURLAck_def Send_def)

text \<open>
  C8. At most one target-URL update is in flight only up to the first ACK that finds a
  pending URL. On a fresh view the engine reports the URLs \<open>a\<close> and \<open>c\<close>, the browser
  acknowledges \<open>a\<close>, and the engine reports \<open>d\<close>: the ACK handler sends \<open>c\<close> and leaves
  the status \<open>TARGET_NONE\<close>, so \<open>d\<close> is sent as well while \<open>c\<close> is unacknowledged.
  Three updates have gone out against one ACK: two are in flight.
\<close>

theorem target_url_two_updates_in_flight:
  "sent (target_url_events
           [Call_UpdateTargetURL (example_url ''http'' ''a''),
            Call_UpdateTargetURL (example_url ''http'' ''c''),
            Msg_UpdateTargetURL_ACK,
            Call_UpdateTargetURL (example_url ''http'' ''d'')]
           (example_view news_frame))
     = [ViewHostMsg_UpdateTargetURL 1 (- 1) (example_url ''http'' ''a''),
        ViewHostMsg_UpdateTargetURL 1 (- 1) (example_url ''http'' ''c''),
        ViewHostMsg_UpdateTargetURL 1 (- 1) (example_url ''http'' ''d'')]
   \<and> target_url_status (target_url_events
           [Call_UpdateTargetURL (example_url ''http'' ''a''),
            Call_UpdateTargetURL (example_url ''http'' ''c''),
            Msg_UpdateTargetURL_ACK]
           (example_view news_frame))
     = TARGET_NONE
   \<and> updates_in_flight
         [Call_UpdateTargetURL (example_url ''http'' ''a''),
          Call_UpdateTargetURL (example_url ''http'' ''c''),
          Msg_UpdateTargetURL_ACK,
          Call_UpdateTargetURL (example_url ''http'' ''d'')]
         (example_view news_frame)
     = 2"
  by code_simp

subsection \<open>Navigation bookkeeping\<close>

lemma UpdateSessionHistory_keeps:
  "UpdateSessionHistory frame v = Some v' \<Longrightarrow>
   page_id v' = page_id v \<and> webview v' = webview v
   \<and> last_page_id_sent_to_browser v' = last_page_id_sent_to_browser v"
  by (auto simp: UpdateSessionHistory_def Send_def split: if_splits option.splits Option.bind_splits)

lemma UpdateURL_page_id: "UpdateURL frame v = Some v' \<Longrightarrow> page_id v' = page_id v"
  by (auto simp: UpdateURL_def Send_def Let_def split: if_splits Option.bind_splits)

lemma UpdateEncoding_page_id:
  "UpdateEncoding frame enc v = Some v' \<Longrightarrow> page_id v' = page_id v"
  by (auto simp: UpdateEncoding_def Send_def split: if_splits Option.bind_splits)

lemma commit_page_id_new:
  "commit_page_id frame True extra (g, v) = Some (g', v') \<Longrightarrow>
   page_id v' = next_page_id g \<and> next_page_id g' = next_page_id g + 1 \<and> webview v' = webview v"
  by (auto simp: commit_page_id_def Let_def dest: UpdateSessionHistory_keeps split: Option.bind_splits)

lemma DidCommitLoadForFrame_new_navigation:
  assumes "DidCommitLoadForFrame frame True (g, v) = Some (g', v')"
  shows "page_id v' = next_page_id g \<and> next_page_id g' = next_page_id g + 1"
  using assms
  by (auto simp: DidCommitLoadForFrame_def Let_def
      dest!: commit_page_id_new UpdateURL_page_id UpdateEncoding_page_id
      split: Option.bind_splits if_splits)

lemma UpdateSessionHistory_Some:
  "webview v = Some w \<Longrightarrow> main_frame w = Some mf \<Longrightarrow> \<exists>v'. UpdateSessionHistory frame v = Some v'"
  by (auto simp: UpdateSessionHistory_def split: option.splits)

lemma commit_page_id_Some:
  assumes "webview v = Some w" and "main_frame w = Some mf"
  shows "\<exists>g' v'. commit_page_id frame b extra (g, v) = Some (g', v') \<and> webview v' = webview v"
proof -
  obtain v1 where v1: "UpdateSessionHistory frame v = Some v1"
    using UpdateSessionHistory_Some [OF assms] by blast
  have "webview v1 = webview v"
    using UpdateSessionHistory_keeps [OF v1] by simp
  with v1 show ?thesis
    by (auto simp: commit_page_id_def Let_def split: option.splits)
qed

lemma sint_add_of_nat:
  assumes "sint (a :: int32) + int i < 2 ^ 31"
  shows "sint (a + of_nat i) = sint a + int i"
proof -
  have lo: "- (2 ^ 31) \<le> sint a + int i"
    using sint_ge [of a] by simp
  have "a + of_nat i = (word_of_int (sint a + int i) :: int32)"
    by simp
  then have "sint (a + of_nat i) = signed_take_bit 31 (sint a + int i)"
    by (simp only: sint_sbintrunc') simp
  also have "\<dots> = sint a + int i"
    using lo assms by (simp add: signed_take_bit_int_eq_self)
  finally show ?thesis .
qed

lemma new_navigations_ids:
  "new_navigations cs g = Some (ids, g') \<Longrightarrow>
   ids = map (\<lambda>i. next_page_id g + of_nat i) [0..<length cs]
   \<and> next_page_id g' = next_page_id g + of_nat (length cs)"
proof (induction cs arbitrary: g ids)
  case Nil
  then show ?case by simp
next
  case (Cons c cs)
  obtain frame v where c: "c = (frame, v)" by (cases c)
  from Cons.prems c obtain g1 v1 ids1 where
    step: "DidCommitLoadForFrame frame True (g, v) = Some (g1, v1)"
    and rest: "new_navigations cs g1 = Some (ids1, g')"
    and ids: "ids = page_id v1 # ids1"
    by (auto split: option.splits)
  from DidCommitLoadForFrame_new_navigation [OF step]
  have p: "page_id v1 = next_page_id g" and n: "next_page_id g1 = next_page_id g + 1" by simp_all
  from Cons.IH [OF rest] n
  have ids1: "ids1 = map (\<lambda>i. next_page_id g + 1 + of_nat i) [0..<length cs]"
    and g': "next_page_id g' = next_page_id g + 1 + of_nat (length cs)" by simp_all
  have "map (\<lambda>i. next_page_id g + of_nat i) [0..<length (c # cs)]
        = next_page_id g # map (\<lambda>i. next_page_id g + 1 + of_nat i) [0..<length cs]"
  proof -
    have "[0..<length (c # cs)] = 0 # map Suc [0..<length cs]"
      by (simp add: upt_conv_Cons map_Suc_upt del: upt_Suc)
    then show ?thesis by (simp add: o_def add.assoc)
  qed
  with ids p ids1 g' show ?case by (simp add: add.assoc)
qed

lemma consecutive_ids_increasing:
  "sint (a :: int32) + int n \<le> 2 ^ 31 \<Longrightarrow>
   sorted_wrt (\<lambda>x y. sint x < sint y) (map (\<lambda>i. a + of_nat i) [0..<n])"
  by (auto simp: sorted_wrt_map sorted_wrt_iff_nth_less sint_add_of_nat)

lemma consecutive_ids_distinct:
  assumes "n \<le> 2 ^ 32"
  shows "distinct (map (\<lambda>i. (a :: int32) + of_nat i) [0..<n])"
proof -
  have "inj_on (\<lambda>i. a + of_nat i) (set [0..<n])"
  proof (rule inj_onI)
    fix i j
    assume i: "i \<in> set [0..<n]" and j: "j \<in> set [0..<n]"
      and eq: "a + of_nat i = a + of_nat j"
    from eq have "(of_nat i :: int32) = of_nat j" by simp
    then have "unat (of_nat i :: int32) = unat (of_nat j :: int32)" by simp
    moreover have "i < 2 ^ 32" "j < 2 ^ 32" using i j assms by auto
    ultimately show "i = j" by (simp add: unat_of_nat)
  qed
  then show ?thesis by (simp add: distinct_map)
qed

lemma map_extra_data_data_source:
  "data_source f = Some ds \<Longrightarrow> \<exists>ds'. data_source (map_extra_data h f) = Some ds'"
  by (simp add: map_extra_data_def)

lemma UpdateURL_Some:
  assumes "webview v = Some w" and "get_frame w frame = Some f" and "data_source f = Some ds"
  shows "\<exists>v' w'. UpdateURL frame v = Some v' \<and> webview v' = Some w'"
  using assms by (simp add: UpdateURL_def Let_def Send_def)

lemma UpdateEncoding_Some:
  "webview v = Some w \<Longrightarrow> \<exists>v'. UpdateEncoding frame enc v = Some v'"
  by (simp add: UpdateEncoding_def)

lemma DidCommitLoadForFrame_Some:
  assumes "has_committed_load v frame"
  shows "\<exists>g' v'. DidCommitLoadForFrame frame b (g, v) = Some (g', v')"
proof -
  from assms obtain w mf mds f ds where
    w: "webview v = Some w" and mf: "main_frame w = Some mf" and mds: "data_source mf = Some mds"
    and f: "get_frame w frame = Some f" and ds: "data_source f = Some ds"
    by (auto simp: has_committed_load_def split: option.splits)
  obtain g1 v1 where c: "commit_page_id frame b (extra_data (request mds)) (g, v) = Some (g1, v1)"
    and w1: "webview v1 = Some w"
    using commit_page_id_Some [OF w mf, of frame b "extra_data (request mds)" g] w by auto
  let ?mf' = "map_extra_data (\<lambda>e. e\<lparr>request_committed := True\<rparr>) mf"
  let ?v2 = "if extra_data (request mds) \<noteq> None
             then v1\<lparr>webview := Some (put_frame w MainFrame ?mf')\<rparr> else v1"
  have "\<exists>w2 f2 ds2. webview ?v2 = Some w2 \<and> get_frame w2 frame = Some f2 \<and> data_source f2 = Some ds2"
  proof (cases "extra_data (request mds) \<noteq> None")
    case False
    with w1 f ds show ?thesis by auto
  next
    case True
    obtain ds' where "data_source ?mf' = Some ds'"
      using map_extra_data_data_source [OF mds] by blast
    with True f ds show ?thesis by (cases frame) (auto split: if_splits)
  qed
  then obtain w2 f2 ds2 where "webview ?v2 = Some w2" "get_frame w2 frame = Some f2"
    "data_source f2 = Some ds2" by blast
  from UpdateURL_Some [OF this] obtain v3 w3 where
    u: "UpdateURL frame ?v2 = Some v3" and w3: "webview v3 = Some w3" by blast
  have "webview (v3\<lparr>completed_client_redirect_src := GURL_empty\<rparr>) = Some w3"
    using w3 by simp
  from UpdateEncoding_Some [OF this] obtain v5 where
    e: "UpdateEncoding frame (main_frame_encoding_name w)
          (v3\<lparr>completed_client_redirect_src := GURL_empty\<rparr>) = Some v5" by blast
  show ?thesis
    using w mf mds c u e by (simp add: DidCommitLoadForFrame_def Let_def)
qed

lemma new_navigations_Some:
  "list_all (\<lambda>(frame, v). has_committed_load v frame) cs \<Longrightarrow>
   \<exists>ids g'. new_navigations cs g = Some (ids, g')"
proof (induction cs arbitrary: g)
  case Nil
  then show ?case by simp
next
  case (Cons c cs)
  obtain frame v where c: "c = (frame, v)" by (cases c)
  with Cons.prems have "has_committed_load v frame" by simp
  from DidCommitLoadForFrame_Some [OF this, of True g] obtain g1 v1 where
    s: "DidCommitLoadForFrame frame True (g, v) = Some (g1, v1)" by blast
  from Cons.prems have "list_all (\<lambda>(frame, v). has_committed_load v frame) cs" by simp
  from Cons.IH [OF this, of g1] obtain ids g' where "new_navigations cs g1 = Some (ids, g')"
    by blast
  with s c show ?case by simp
qed



text \<open>
  C1, within the range of the 32-bit counter. A call of \<open>DidCommitLoadForFrame\<close> with \<open>is_new_navigation\<close> true
  that returns gives the view the current value of the static counter as its page id and
  leaves the counter one higher (modulo \<open>2^32\<close>), and it does return when the engine has a
  committed load for the frame. So a sequence of committed new navigations hands out
  consecutive values of the counter: they are pairwise different as long as there are at
  most \<open>2^32\<close> of them, and strictly increasing as signed 32-bit integers as long as the
  counter's value plus the number of navigations does not exceed \<open>2^31\<close>.
\<close>

theorem new_navigation_page_ids:
  "(DidCommitLoadForFrame frame True (g, v) = Some (g', v') \<longrightarrow>
      page_id v' = next_page_id g \<and> next_page_id g' = next_page_id g + 1)
   \<and> (has_committed_load v frame \<longrightarrow>
        (\<exists>g1 v1. DidCommitLoadForFrame frame True (g, v) = Some (g1, v1)))
   \<and> (list_all (\<lambda>(frame, v). has_committed_load v frame) cs \<longrightarrow>
        (\<exists>ids g2. new_navigations cs g = Some (ids, g2)
           \<and> ids = map (\<lambda>i. next_page_id g + of_nat i) [0..<length cs]
           \<and> next_page_id g2 = next_page_id g + of_nat (length cs)
           \<and> (length cs \<le> 2 ^ 32 \<longrightarrow> distinct ids)
           \<and> (sint (next_page_id g) + int (length cs) \<le> 2 ^ 31 \<longrightarrow>
                sorted_wrt (\<lambda>x y. sint x < sint y) ids)))"
proof (intro conjI impI)
  assume "DidCommitLoadForFrame frame True (g, v) = Some (g', v')"
  from DidCommitLoadForFrame_new_navigation [OF this]
  show "page_id v' = next_page_id g" and "next_page_id g' = next_page_id g + 1" by simp_all
next
  assume "has_committed_load v frame"
  then show "\<exists>g1 v1. DidCommitLoadForFrame frame True (g, v) = Some (g1, v1)"
    by (rule DidCommitLoadForFrame_Some)
next
  assume "list_all (\<lambda>(frame, v). has_committed_load v frame) cs"
  from new_navigations_Some [OF this, of g] obtain ids g2 where
    run: "new_navigations cs g = Some (ids, g2)" by blast
  from new_navigations_ids [OF run]
  have ids: "ids = map (\<lambda>i. next_page_id g + of_nat i) [0..<length cs]"
    and g2: "next_page_id g2 = next_page_id g + of_nat (length cs)" by simp_all
  have "length cs \<le> 2 ^ 32 \<longrightarrow> distinct ids"
    unfolding ids by (simp add: consecutive_ids_distinct)
  moreover have "sint (next_page_id g) + int (length cs) \<le> 2 ^ 31 \<longrightarrow>
      sorted_wrt (\<lambda>x y. sint x < sint y) ids"
    unfolding ids using consecutive_ids_increasing by blast
  ultimately show "\<exists>ids g2. new_navigations cs g = Some (ids, g2)
           \<and> ids = map (\<lambda>i. next_page_id g + of_nat i) [0..<length cs]
           \<and> next_page_id g2 = next_page_id g + of_nat (length cs)
           \<and> (length cs \<le> 2 ^ 32 \<longrightarrow> distinct ids)
           \<and> (sint (next_page_id g) + int (length cs) \<le> 2 ^ 31 \<longrightarrow>
                sorted_wrt (\<lambda>x y. sint x < sint y) ids)"
    using run ids g2 by blast
qed

lemma example_view_committed:
  "has_committed_load (example_view news_frame) MainFrame"
  "has_committed_load (example_view bank_frame) (SubFrame 0)"
  by (simp_all add: has_committed_load_def example_view_def example_webview_def
      news_frame_def bank_frame_def example_frame_def)

theorem new_navigation_page_ids_witness:
  "has_committed_load (example_view news_frame) MainFrame
   \<and> (\<exists>g1 v1. DidCommitLoadForFrame MainFrame True (Renderer_initial, example_view news_frame)
                  = Some (g1, v1)
          \<and> page_id v1 = 1 \<and> next_page_id g1 = 2)
   \<and> list_all (\<lambda>(frame, v). has_committed_load v frame)
        [(MainFrame, example_view news_frame), (SubFrame 0, example_view bank_frame)]
   \<and> map_option fst
        (new_navigations
           [(MainFrame, example_view news_frame), (SubFrame 0, example_view bank_frame)]
           Renderer_initial)
      = Some [1, 2]
   \<and> distinct [1, 2 :: int32]
   \<and> sorted_wrt (\<lambda>x y. sint x < sint y) [1, 2 :: int32]"
proof -
  let ?cs = "[(MainFrame, example_view news_frame), (SubFrame 0, example_view bank_frame)]"
  have one: "next_page_id Renderer_initial = 1" by (simp add: Renderer_initial_def)
  have loaded1: "has_committed_load (example_view news_frame) MainFrame"
    by (rule example_view_committed)
  have loaded: "list_all (\<lambda>(frame, v). has_committed_load v frame) ?cs"
    by (simp add: example_view_committed)
  from loaded1 new_navigation_page_ids [of MainFrame Renderer_initial "example_view news_frame"]
  obtain g1 v1 where
    step: "DidCommitLoadForFrame MainFrame True (Renderer_initial, example_view news_frame)
             = Some (g1, v1)"
    by blast
  from step new_navigation_page_ids [of MainFrame Renderer_initial "example_view news_frame" g1 v1]
  have "page_id v1 = 1 \<and> next_page_id g1 = 2" unfolding one by simp
  with step have single:
    "\<exists>g1 v1. DidCommitLoadForFrame MainFrame True (Renderer_initial, example_view news_frame)
                = Some (g1, v1) \<and> page_id v1 = 1 \<and> next_page_id g1 = 2"
    by blast
  have len: "length ?cs \<le> 2 ^ 32" "sint (next_page_id Renderer_initial) + int (length ?cs) \<le> 2 ^ 31"
    by (simp_all add: one)
  from loaded len
    new_navigation_page_ids [of MainFrame Renderer_initial RenderView_ctor
        Renderer_initial RenderView_ctor ?cs]
  obtain ids g2 where run: "new_navigations ?cs Renderer_initial = Some (ids, g2)"
    and ids: "ids = map (\<lambda>i. next_page_id Renderer_initial + of_nat i) [0..<length ?cs]"
    and fresh: "distinct ids" and incr: "sorted_wrt (\<lambda>x y. sint x < sint y) ids"
    by blast
  have "[0..<length ?cs] = [0, 1]" by (simp add: upt_conv_Cons)
  with ids have "ids = [1, 2]" by (simp add: one)
  with run fresh incr loaded loaded1 single show ?thesis by simp
qed

text \<open>
  The claim as stated fails at the end of the counter's range. \<open>SetNextPageID\<close> at
  start-up may give the counter the value \<open>2^31 - 1\<close>; two new navigations of one view
  then get the page ids \<open>2147483647\<close> and \<open>-2147483648\<close>, the second below the first.
\<close>

theorem page_ids_not_increasing_counterexample:
  "Option.bind (DidCommitLoadForFrame MainFrame True
                  (SetNextPageID 0x7fffffff Renderer_initial, example_view news_frame))
     (\<lambda>(g1, v1). Option.bind (DidCommitLoadForFrame MainFrame True (g1, v1))
        (\<lambda>(g2, v2). Some (page_id v1, page_id v2)))
   = Some (0x7fffffff, 0x80000000)
   \<and> sint (0x80000000 :: int32) < sint (0x7fffffff :: int32)"
  by code_simp

text \<open>
  C2. \<open>UpdateURL\<close> on a subframe with a data source returns, having appended one
  \<open>FrameNavigate\<close> message whose transition is \<open>MANUAL_SUBFRAME\<close> exactly when
  \<open>page_id\<close> is greater than \<open>last_page_id_sent_to_browser\<close> and \<open>AUTO_SUBFRAME\<close>
  exactly when it is not; afterwards \<open>last_page_id_sent_to_browser\<close> is the greater of
  its old value and \<open>page_id\<close>.
\<close>

theorem subframe_transition_inference:
  assumes "webview v = Some w" and "get_frame w (SubFrame i) = Some f"
    and "data_source f = Some ds"
  shows "\<exists>v' params.
           UpdateURL (SubFrame i) v = Some v'
         \<and> sent v' = sent v @ [ViewHostMsg_FrameNavigate (routing_id v) params]
         \<and> (p_transition params = plain MANUAL_SUBFRAME)
             = (sint (last_page_id_sent_to_browser v) < sint (page_id v))
         \<and> (p_transition params = plain AUTO_SUBFRAME)
             = (\<not> sint (last_page_id_sent_to_browser v) < sint (page_id v))
         \<and> sint (last_page_id_sent_to_browser v')
             = max (sint (last_page_id_sent_to_browser v)) (sint (page_id v))
         \<and> last_page_id_sent_to_browser v' \<in> {last_page_id_sent_to_browser v, page_id v}"
  using assms
  by (auto simp: UpdateURL_def Let_def Send_def subframe_params_def std_max_def plain_def)

theorem subframe_transition_inference_witness:
  "webview ((example_view news_frame)\<lparr>page_id := 3\<rparr>) = Some (example_webview news_frame)
   \<and> get_frame (example_webview news_frame) (SubFrame 0)
       = Some (example_frame (example_url ''http'' ''http://ads.example/'') ''ad'')
   \<and> (\<exists>v' params.
         UpdateURL (SubFrame 0) ((example_view news_frame)\<lparr>page_id := 3\<rparr>) = Some v'
       \<and> sent v' = [ViewHostMsg_FrameNavigate 1 params]
       \<and> p_transition params = plain MANUAL_SUBFRAME
       \<and> sint (last_page_id_sent_to_browser v') = 3)"
proof -
  let ?v = "(example_view news_frame)\<lparr>page_id := 3\<rparr>"
  let ?f = "example_frame (example_url ''http'' ''http://ads.example/'') ''ad''"
  have w: "webview ?v = Some (example_webview news_frame)"
    by (simp add: example_view_simps)
  have f: "get_frame (example_webview news_frame) (SubFrame 0) = Some ?f"
    by (simp add: example_webview_def)
  have ds: "data_source ?f = Some (example_data_source (example_url ''http'' ''http://ads.example/''))"
    by (simp add: example_frame_def)
  have vals: "sent ?v = []" "routing_id ?v = 1" "sint (page_id ?v) = 3"
    "sint (last_page_id_sent_to_browser ?v) = - 1"
    by (simp_all add: example_view_def RenderView_ctor_def)
  from subframe_transition_inference [OF w f ds] w f show ?thesis
    unfolding vals by auto
qed



subsection \<open>Popups\<close>

text \<open>
  C10. When the shared popup counter is above \<open>kMaximumNumberOfUnacknowledgedPopups\<close>,
  which is 25, \<open>CreateWebView\<close> returns \<^verbatim>\<open>NULL\<close> with the process and the view as they
  were: no \<open>ViewHostMsg_CreateWindow\<close> has gone out and no member has changed.
\<close>

theorem popup_spawn_limit:
  assumes "25 < sint (counters g (shared_popup_counter v))"
  shows "sint kMaximumNumberOfUnacknowledgedPopups = 25
    \<and> CreateWebView user_gesture reply new_webview (g, v) = Some (g, v, None)"
  using assms by (simp add: CreateWebView_def kMaximumNumberOfUnacknowledgedPopups_def)

theorem popup_spawn_limit_witness:
  "25 < sint (counters (Renderer_initial\<lparr>counters := (\<lambda>a. 26)\<rparr>)
                 (shared_popup_counter (example_view news_frame)))
   \<and> CreateWebView True 9 (example_webview bank_frame)
        (Renderer_initial\<lparr>counters := (\<lambda>a. 26)\<rparr>, example_view news_frame)
      = Some (Renderer_initial\<lparr>counters := (\<lambda>a. 26)\<rparr>, example_view news_frame, None)"
proof -
  have over: "25 < sint (counters (Renderer_initial\<lparr>counters := (\<lambda>a. 26)\<rparr>)
                 (shared_popup_counter (example_view news_frame)))"
    by simp
  from popup_spawn_limit [OF over, of True 9 "example_webview bank_frame"] over
  show ?thesis by blast
qed

text \<open>At the limit itself the request does go out.\<close>

lemma popup_at_limit_is_requested:
  "sint (counters g (shared_popup_counter v)) \<le> 25 \<Longrightarrow>
   CreateWebView user_gesture MSG_ROUTING_NONE new_webview (g, v)
   = Some (g\<lparr>thread_sent := thread_sent g @ [ViewHostMsg_CreateWindow (routing_id v) user_gesture]\<rparr>,
           v\<lparr>popup_notification_visible := True\<rparr>, None)"
  by (simp add: CreateWebView_def kMaximumNumberOfUnacknowledgedPopups_def Let_def)

subsection \<open>Message dispatch\<close>

lemma IPC_MESSAGE_MAP_unmatched:
  "msg_type m \<notin> set (map fst entries) \<Longrightarrow> IPC_MESSAGE_MAP entries unhandled m = unhandled m"
  by (induction entries) auto

lemma IPC_MESSAGE_MAP_matched:
  "distinct (map fst entries) \<Longrightarrow> (msg_type m, h) \<in> set entries \<Longrightarrow>
   IPC_MESSAGE_MAP entries unhandled m = Handler h m"
proof (induction entries)
  case Nil
  then show ?case by simp
next
  case (Cons e entries)
  obtain ty f where e: "e = (ty, f)" by (cases e)
  show ?case
  proof (cases "msg_type m = ty")
    case True
    with Cons.prems e have "h = f" by (force simp: image_iff)
    with True e show ?thesis by simp
  next
    case False
    with Cons e show ?thesis by auto
  qed
qed

lemma message_map_length: "length message_map = 66"
  by (simp add: message_map_def)

lemma message_map_distinct: "distinct (map fst message_map)"
  by (simp add: message_map_def)

text \<open>
  C4. The developer tools client, then the agent, may take the message. Otherwise the
  message goes through the table, which has 66 entries with 66 different message types:
  a message whose type is in the table goes to the one handler the table names for it,
  and a message whose type is not in the table goes, as it is, to
  \<open>RenderWidget::OnMessageReceived\<close>.
\<close>

theorem linear_message_dispatch:
  "length message_map = 66
   \<and> distinct (map fst message_map)
   \<and> (takes devtools_client m \<longrightarrow>
        OnMessageReceived devtools_client devtools_agent m = devtools_client_OnMessageReceived)
   \<and> (\<not> takes devtools_client m \<and> takes devtools_agent m \<longrightarrow>
        OnMessageReceived devtools_client devtools_agent m = devtools_agent_OnMessageReceived)
   \<and> (\<not> takes devtools_client m \<and> \<not> takes devtools_agent m \<longrightarrow>
        (\<forall>h. (msg_type m, h) \<in> set message_map \<longrightarrow>
              OnMessageReceived devtools_client devtools_agent m = Handler h m)
        \<and> (msg_type m \<notin> set (map fst message_map) \<longrightarrow>
              OnMessageReceived devtools_client devtools_agent m = RenderWidget_OnMessageReceived m))"
  using IPC_MESSAGE_MAP_matched [OF message_map_distinct, of m]
    IPC_MESSAGE_MAP_unmatched [of m message_map]
  by (simp add: OnMessageReceived_def message_map_length message_map_distinct)

theorem linear_message_dispatch_witness:
  "OnMessageReceived None None \<lparr>msg_type = ''ViewMsg_UpdateTargetURL_ACK'', msg_routing_id = 1,
                               msg_payload = []\<rparr>
     = Handler ''OnUpdateTargetURLAck''
         \<lparr>msg_type = ''ViewMsg_UpdateTargetURL_ACK'', msg_routing_id = 1, msg_payload = []\<rparr>
   \<and> OnMessageReceived None None \<lparr>msg_type = ''ViewMsg_Close'', msg_routing_id = 1,
                                 msg_payload = []\<rparr>
     = RenderWidget_OnMessageReceived
         \<lparr>msg_type = ''ViewMsg_Close'', msg_routing_id = 1, msg_payload = []\<rparr>
   \<and> OnMessageReceived (Some (\<lambda>m. True)) None
        \<lparr>msg_type = ''ViewMsg_Close'', msg_routing_id = 1, msg_payload = []\<rparr>
     = devtools_client_OnMessageReceived
   \<and> OnMessageReceived None (Some (\<lambda>m. True))
        \<lparr>msg_type = ''ViewMsg_Close'', msg_routing_id = 1, msg_payload = []\<rparr>
     = devtools_agent_OnMessageReceived"
proof -
  let ?ack = "\<lparr>msg_type = ''ViewMsg_UpdateTargetURL_ACK'', msg_routing_id = 1, msg_payload = []\<rparr>"
  let ?close = "\<lparr>msg_type = ''ViewMsg_Close'', msg_routing_id = 1, msg_payload = []\<rparr>"
  have in_table: "(msg_type ?ack, ''OnUpdateTargetURLAck'') \<in> set message_map"
    by (simp add: message_map_def)
  have not_in_table: "msg_type ?close \<notin> set (map fst message_map)"
    by (simp add: message_map_def)
  have t: "\<not> takes None m" "takes (Some (\<lambda>m. True)) m" for m :: IPC_Message
    by (simp_all add: takes_def)
  from linear_message_dispatch [of None ?ack None] in_table t
  have a: "OnMessageReceived None None ?ack = Handler ''OnUpdateTargetURLAck'' ?ack" by blast
  from linear_message_dispatch [of None ?close None] not_in_table t
  have b: "OnMessageReceived None None ?close = RenderWidget_OnMessageReceived ?close" by blast
  from linear_message_dispatch [of "Some (\<lambda>m. True)" ?close None] t
  have c: "OnMessageReceived (Some (\<lambda>m. True)) None ?close = devtools_client_OnMessageReceived"
    by blast
  from linear_message_dispatch [of None ?close "Some (\<lambda>m. True)"] t
  have d: "OnMessageReceived None (Some (\<lambda>m. True)) ?close = devtools_agent_OnMessageReceived"
    by blast
  from a b c d show ?thesis by blast
qed

subsection \<open>The drag delegate\<close>

text \<open>
  C5. \<open>OnDragSourceCancel\<close> does what \<open>OnDragSourceDrop\<close> does. Drop (and so cancel)
  and move each read the cursor position from the operating system, \<open>(0, 0)\<close> standing
  in when the read fails, map it into the source window, and hand the client and screen
  coordinates to the web view: drop to \<open>DragSourceEndedAt\<close>, move to
  \<open>DragSourceMovedTo\<close>. The two behaviours differ.
\<close>

theorem drag_delegate_forwards_cursor:
  "OnDragSourceCancel os d = OnDragSourceDrop os d
   \<and> (let screen = (case GetCursorPos os of None \<Rightarrow> \<lparr>pt_x = 0, pt_y = 0\<rparr> | Some p \<Rightarrow> p);
           client = ScreenToClient os (source_hwnd d) screen
       in OnDragSourceDrop os d
            = d\<lparr>webview_calls := webview_calls d @
                  [DragSourceEndedAt (pt_x client) (pt_y client) (pt_x screen) (pt_y screen)]\<rparr>
          \<and> OnDragSourceMove os d
            = d\<lparr>webview_calls := webview_calls d @
                  [DragSourceMovedTo (pt_x client) (pt_y client) (pt_x screen) (pt_y screen)]\<rparr>)
   \<and> OnDragSourceMove os d \<noteq> OnDragSourceDrop os d"
proof -
  have "webview_calls (OnDragSourceMove os d) \<noteq> webview_calls (OnDragSourceDrop os d)"
    by (simp add: OnDragSourceMove_def OnDragSourceDrop_def GetCursorPositions_def Let_def)
  then have "OnDragSourceMove os d \<noteq> OnDragSourceDrop os d" by metis
  then show ?thesis
    by (simp add: OnDragSourceCancel_def OnDragSourceDrop_def OnDragSourceMove_def
        GetCursorPositions_def Let_def)
qed

subsection \<open>The cache mode\<close>

text \<open>
  C7. The cache mode is \<open>PLAYBACK\<close> when the playback switch is on the command line,
  whether or not the record switch is; \<open>RECORD\<close> when the record switch is there and the
  playback switch is not; \<open>NORMAL\<close> when neither is.
\<close>

theorem cache_mode_playback_over_record:
  "(HasSwitch cl kPlaybackMode \<longrightarrow> main_cache_mode kPlaybackMode kRecordMode cl = PLAYBACK)
   \<and> (\<not> HasSwitch cl kPlaybackMode \<and> HasSwitch cl kRecordMode \<longrightarrow>
        main_cache_mode kPlaybackMode kRecordMode cl = RECORD)
   \<and> (\<not> HasSwitch cl kPlaybackMode \<and> \<not> HasSwitch cl kRecordMode \<longrightarrow>
        main_cache_mode kPlaybackMode kRecordMode cl = NORMAL)"
  by (simp add: main_cache_mode_def)

theorem cache_mode_playback_over_record_witness:
  "main_cache_mode ''playback-mode'' ''record-mode''
     [(''record-mode'', []), (''playback-mode'', [])] = PLAYBACK
   \<and> main_cache_mode ''playback-mode'' ''record-mode''
     [(''cache-dir'', ''c''), (''record-mode'', [])] = RECORD
   \<and> main_cache_mode ''playback-mode'' ''record-mode'' [(''cache-dir'', ''c'')] = NORMAL"
proof -
  have sw: "HasSwitch [(''record-mode'', []), (''playback-mode'', [])] ''playback-mode''"
    "\<not> HasSwitch [(''cache-dir'', ''c''), (''record-mode'', [])] ''playback-mode''"
    "HasSwitch [(''cache-dir'', ''c''), (''record-mode'', [])] ''record-mode''"
    "\<not> HasSwitch [(''cache-dir'', ''c'')] ''playback-mode''"
    "\<not> HasSwitch [(''cache-dir'', ''c'')] ''record-mode''"
    by (simp_all add: HasSwitch_def)
  from sw
    cache_mode_playback_over_record
      [of "[(''record-mode'', []), (''playback-mode'', [])]" "''playback-mode''" "''record-mode''"]
    cache_mode_playback_over_record
      [of "[(''cache-dir'', ''c''), (''record-mode'', [])]" "''playback-mode''" "''record-mode''"]
    cache_mode_playback_over_record
      [of "[(''cache-dir'', ''c'')]" "''playback-mode''" "''record-mode''"]
  show ?thesis by blast
qed


end
